theory Spec2Isabelle
  imports Complex_Main
begin

section \<open>Errors\<close>

text \<open>
  The exceptions the Python module \<^verbatim>\<open>audiocraft/models/encodec.py\<close> can raise, as values.
  An \<^verbatim>\<open>assert\<close> raises \<open>AssertionError\<close> (with its message, empty when the statement has
  none); \<open>EinopsError\<close> and \<open>RuntimeError\<close> are what \<^verbatim>\<open>einops.rearrange\<close> and
  \<^verbatim>\<open>torch.stack\<close>/\<^verbatim>\<open>torch.cat\<close> raise on shapes they cannot handle. \<open>InvalidDigit\<close> and
  \<open>OutOfRange\<close> are the two error kinds the specification gives the radix codec.
\<close>

datatype error =
    AssertionError string
  | ValueError string
  | NotImplementedError string
  | NameError string
  | TypeError
  | IndexError
  | RuntimeError
  | EinopsError
  | InvalidDigit
  | OutOfRange

section \<open>The radix-3 codec\<close>

text \<open>
  \<^verbatim>\<open>ternary_matrix_to_decimal\<close> and \<^verbatim>\<open>decimal_to_ternary_matrix\<close> are imported by
  \<^verbatim>\<open>encodec.py\<close> from \<^verbatim>\<open>.utils\<close>, whose source is not available. The four definitions
  below follow section 4.1 of the specification, for one digit group.
\<close>

text \<open>Modelled from the spec: the value of a digit sequence read as a base-3 positional
  number, most-significant digit first (the body of \<^verbatim>\<open>ternary_matrix_to_decimal\<close> in the
  missing \<^verbatim>\<open>utils.py\<close>).\<close>

fun pack_value :: "int list \<Rightarrow> int" where
  "pack_value [] = 0"
| "pack_value (d # ds) = d * 3 ^ length ds + pack_value ds"

text \<open>Modelled from the spec: pack of the missing \<^verbatim>\<open>utils.py\<close>; every digit is validated to
  lie in \<open>{0, 1, 2}\<close>, a violation is \<open>InvalidDigit\<close>.\<close>

definition pack :: "int list \<Rightarrow> error + int" where
  "pack v = (if list_all (\<lambda>d. 0 \<le> d \<and> d \<le> 2) v then Inr (pack_value v) else Inl InvalidDigit)"

text \<open>Modelled from the spec: the digit loop of unpack in the missing \<^verbatim>\<open>utils.py\<close>:
  repeatedly take \<open>code mod 3\<close>, then integer-divide by 3; the digits come out
  least-significant first.\<close>

function lsd_digits :: "int \<Rightarrow> int list" where
  "lsd_digits c = (if c \<le> 0 then [] else (c mod 3) # lsd_digits (c div 3))"
  by pat_completeness auto
termination
  by (relation "measure nat") auto

declare lsd_digits.simps [simp del]

text \<open>Modelled from the spec: unpack of the missing \<^verbatim>\<open>utils.py\<close>; a negative code or a code
  \<open>\<ge> 3 ^ D\<close> is \<open>OutOfRange\<close>, otherwise the digits are reversed to the packing order and
  left-padded with zero digits to exactly \<open>D\<close> digits.\<close>

definition unpack :: "int \<Rightarrow> nat \<Rightarrow> error + int list" where
  "unpack c D =
     (if c < 0 \<or> 3 ^ D \<le> c then Inl OutOfRange
      else let ds = rev (lsd_digits c) in Inr (replicate (D - length ds) 0 @ ds))"

section \<open>Tensors\<close>

text \<open>
  A torch tensor carries its shape and its elements. The code tensor \<open>[B, K, T]\<close>, the audio
  frame \<open>[B, C, T]\<close> and the latent \<open>[B, dim, T]\<close> are three-axis tensors: the shape and the
  elements as nested lists, outermost axis first. A scale factor as
  \<^verbatim>\<open>EncodecModel.preprocess\<close> returns it (\<^verbatim>\<open>scale.view(-1, 1)\<close>) is a two-axis tensor. A
  tensor is well formed when its nested lists have the lengths its shape says. Float
  elements are carried as reals: the code below only moves them around, except for the
  product in \<^verbatim>\<open>postprocess\<close>.
\<close>

record 'a tensor3 =
  shape3 :: "nat \<times> nat \<times> nat"
  elems3 :: "'a list list list"

record 'a tensor2 =
  shape2 :: "nat \<times> nat"
  elems2 :: "'a list list"

type_synonym codes = "int tensor3"
type_synonym audio = "real tensor3"
type_synonym scale = "real tensor2"

definition wf3 :: "'a tensor3 \<Rightarrow> bool" where
  "wf3 x = (case shape3 x of (B, K, T) \<Rightarrow>
     length (elems3 x) = B \<and>
     list_all (\<lambda>r. length r = K \<and> list_all (\<lambda>s. length s = T) r) (elems3 x))"

definition wf2 :: "'a tensor2 \<Rightarrow> bool" where
  "wf2 x = (case shape2 x of (B, R) \<Rightarrow>
     length (elems2 x) = B \<and> list_all (\<lambda>r. length r = R) (elems2 x))"

section \<open>Python's text for integers and lists\<close>

text \<open>\<^verbatim>\<open>str\<close> of a non-negative integer, of an integer, and \<^verbatim>\<open>repr\<close> of a list of integers,
  which is what an f-string writes for \<^verbatim>\<open>{self.possible_num_codebooks}\<close>.\<close>

fun str_nat :: "nat \<Rightarrow> string" where
  "str_nat n =
     (if n < 10 then [char_of (48 + n)] else str_nat (n div 10) @ [char_of (48 + n mod 10)])"

declare str_nat.simps [simp del]

definition str_int :: "int \<Rightarrow> string" where
  "str_int i = (if i < 0 then CHR ''-'' # str_nat (nat (- i)) else str_nat (nat i))"

fun join_comma :: "string list \<Rightarrow> string" where
  "join_comma [] = []"
| "join_comma [s] = s"
| "join_comma (s # t # ss) = s @ '', '' @ join_comma (t # ss)"

definition repr_int_list :: "int list \<Rightarrow> string" where
  "repr_int_list xs = ''['' @ join_comma (map str_int xs) @ '']''"

section \<open>DAC\<close>

text \<open>
  \<^verbatim>\<open>class DAC\<close>. The wrapped descript model is external: its attributes
  (\<^verbatim>\<open>sample_rate\<close>, \<^verbatim>\<open>hop_length\<close>, \<^verbatim>\<open>codebook_size\<close>, \<^verbatim>\<open>n_codebooks\<close>) and its three
  operations are fields of the record. \<^verbatim>\<open>__init__\<close> sets \<open>n_quantizers\<close> to
  \<open>total_codebooks\<close>.
\<close>

record DAC =
  dac_sample_rate :: int
  dac_hop_length :: int
  dac_codebook_size :: int
  dac_n_codebooks :: int
  n_quantizers :: int
  dac_model_encode :: "audio \<Rightarrow> int \<Rightarrow> error + codes"
  dac_from_codes :: "codes \<Rightarrow> error + audio"
  dac_model_decode :: "audio \<Rightarrow> error + audio"

definition DAC_total_codebooks :: "DAC \<Rightarrow> int" where
  "DAC_total_codebooks self = dac_n_codebooks self"

definition DAC_num_codebooks :: "DAC \<Rightarrow> int" where
  "DAC_num_codebooks self = n_quantizers self"

definition DAC_cardinality :: "DAC \<Rightarrow> int" where
  "DAC_cardinality self = dac_codebook_size self"

definition DAC_channels :: "DAC \<Rightarrow> int" where
  "DAC_channels self = 1"

definition DAC_frame_rate :: "DAC \<Rightarrow> real" where
  "DAC_frame_rate self = real_of_int (dac_sample_rate self) / real_of_int (dac_hop_length self)"

definition DAC_set_num_codebooks :: "DAC \<Rightarrow> int \<Rightarrow> error + DAC" where
  "DAC_set_num_codebooks self n =
     (if \<not> n \<ge> 1 then Inl (AssertionError [])
      else if \<not> n \<le> DAC_total_codebooks self then Inl (AssertionError [])
      else Inr (self\<lparr>n_quantizers := n\<rparr>))"

text \<open>\<^verbatim>\<open>codes[:, :n]\<close>: Python's slice of the codebook axis; a negative bound counts from the
  end, and the slice is clipped to the axis.\<close>

definition slice_codebooks :: "int \<Rightarrow> 'a tensor3 \<Rightarrow> 'a tensor3" where
  "slice_codebooks n x = (case shape3 x of (B, K, T) \<Rightarrow>
     let m = (if n < 0 then nat (int K + n) else min (nat n) K)
     in \<lparr>shape3 = (B, m, T), elems3 = map (take m) (elems3 x)\<rparr>)"

definition DAC_encode :: "DAC \<Rightarrow> audio \<Rightarrow> error + (codes \<times> scale option)" where
  "DAC_encode self x =
     (case dac_model_encode self x (n_quantizers self) of
        Inl e \<Rightarrow> Inl e
      | Inr codes \<Rightarrow> Inr (slice_codebooks (n_quantizers self) codes, None))"

definition DAC_decode_latent :: "DAC \<Rightarrow> codes \<Rightarrow> error + audio" where
  "DAC_decode_latent self codes = dac_from_codes self codes"

definition DAC_decode :: "DAC \<Rightarrow> codes \<Rightarrow> scale option \<Rightarrow> error + audio" where
  "DAC_decode self codes scale =
     (if scale \<noteq> None then Inl (AssertionError [])
      else case DAC_decode_latent self codes of
             Inl e \<Rightarrow> Inl e
           | Inr z_q \<Rightarrow> dac_model_decode self z_q)"

section \<open>HFEncodecCompressionModel\<close>

text \<open>
  \<^verbatim>\<open>class HFEncodecCompressionModel\<close>. The HuggingFace model and its configuration are
  external. \<^verbatim>\<open>__init__\<close> computes \<open>possible_num_codebooks\<close> from the bandwidths in floating
  point; here the list is a field, as is \<open>_num_codebooks\<close>.
\<close>

record HFEncodecCompressionModel =
  possible_num_codebooks :: "int list"
  hf_num_codebooks :: int
  hf_codebook_size :: int
  hf_audio_channels :: int

definition HF_num_codebooks :: "HFEncodecCompressionModel \<Rightarrow> int" where
  "HF_num_codebooks self = hf_num_codebooks self"

text \<open>\<^verbatim>\<open>max\<close> of a list; Python raises \<open>ValueError\<close> on an empty one.\<close>

definition HF_total_codebooks :: "HFEncodecCompressionModel \<Rightarrow> error + int" where
  "HF_total_codebooks self =
     (case possible_num_codebooks self of
        [] \<Rightarrow> Inl (ValueError ''max() arg is an empty sequence'')
      | n # ns \<Rightarrow> Inr (foldl max n ns))"

definition HF_set_num_codebooks ::
    "HFEncodecCompressionModel \<Rightarrow> int \<Rightarrow> error + HFEncodecCompressionModel" where
  "HF_set_num_codebooks self n =
     (if n \<notin> set (possible_num_codebooks self)
      then Inl (ValueError (''Allowed values for num codebooks: '' @
                  repr_int_list (possible_num_codebooks self)))
      else Inr (self\<lparr>hf_num_codebooks := n\<rparr>))"

section \<open>WavTokenizer\<close>

text \<open>\<^verbatim>\<open>class WavTokenizer\<close>. The tokenizer model is external: \<open>wt_codes_to_features\<close> and
  \<open>wt_model_decode\<close> are its operations (the latter returns \<open>[B, T]\<close> audio).\<close>

record WavTokenizer =
  wt_n_quantizers :: int
  wt_codes_to_features :: "codes \<Rightarrow> error + audio"
  wt_model_decode :: "audio \<Rightarrow> error + real tensor2"

definition WavTokenizer_num_codebooks :: "WavTokenizer \<Rightarrow> int" where
  "WavTokenizer_num_codebooks self = 1"

definition WavTokenizer_total_codebooks :: "WavTokenizer \<Rightarrow> int" where
  "WavTokenizer_total_codebooks self = 1"

definition WavTokenizer_set_num_codebooks :: "WavTokenizer \<Rightarrow> int \<Rightarrow> error + WavTokenizer" where
  "WavTokenizer_set_num_codebooks self n =
     (if \<not> n = 1 then Inl (AssertionError ''WavTokenizer only supports 1 codebook'')
      else Inr (self\<lparr>wt_n_quantizers := n\<rparr>))"

text \<open>\<^verbatim>\<open>codes.movedim(1, 0)\<close> on \<open>[B, K, T]\<close> gives \<open>[K, B, T]\<close>; \<^verbatim>\<open>unsqueeze(1)\<close> on \<open>[B, T]\<close>
  gives \<open>[B, 1, T]\<close>.\<close>

definition movedim_1_0 :: "'a tensor3 \<Rightarrow> 'a tensor3" where
  "movedim_1_0 x = (case shape3 x of (B, K, T) \<Rightarrow>
     \<lparr>shape3 = (K, B, T),
      elems3 = map (\<lambda>k. map (\<lambda>b. elems3 x ! b ! k) [0..<B]) [0..<K]\<rparr>)"

definition unsqueeze_1 :: "'a tensor2 \<Rightarrow> 'a tensor3" where
  "unsqueeze_1 x = (case shape2 x of (B, T) \<Rightarrow>
     \<lparr>shape3 = (B, 1, T), elems3 = map (\<lambda>r. [r]) (elems2 x)\<rparr>)"

definition WavTokenizer_decode :: "WavTokenizer \<Rightarrow> codes \<Rightarrow> scale option \<Rightarrow> error + audio" where
  "WavTokenizer_decode self codes scale =
     (if scale \<noteq> None then Inl (AssertionError [])
      else case wt_codes_to_features self (movedim_1_0 codes) of
             Inl e \<Rightarrow> Inl e
           | Inr feats \<Rightarrow>
               (case wt_model_decode self feats of
                  Inl e \<Rightarrow> Inl e
                | Inr y \<Rightarrow> Inr (unsqueeze_1 y)))"

section \<open>Tensor operations of torch used by the ternary backend\<close>

text \<open>Sequencing of fallible steps: the first exception raised ends the computation.\<close>

definition err_bind :: "error + 'a \<Rightarrow> ('a \<Rightarrow> error + 'b) \<Rightarrow> error + 'b" where
  "err_bind m f = (case m of Inl e \<Rightarrow> Inl e | Inr v \<Rightarrow> f v)"

fun err_sequence :: "(error + 'a) list \<Rightarrow> error + 'a list" where
  "err_sequence [] = Inr []"
| "err_sequence (m # ms) =
     (case m of
        Inl e \<Rightarrow> Inl e
      | Inr v \<Rightarrow> (case err_sequence ms of Inl e \<Rightarrow> Inl e | Inr vs \<Rightarrow> Inr (v # vs)))"

definition map_tensor3 :: "('a \<Rightarrow> 'b) \<Rightarrow> 'a tensor3 \<Rightarrow> 'b tensor3" where
  "map_tensor3 f x = \<lparr>shape3 = shape3 x, elems3 = map (map (map f)) (elems3 x)\<rparr>"

text \<open>\<^verbatim>\<open>.to(torch.int64)\<close> and \<^verbatim>\<open>.astype(np.int32)\<close> on a float drop the fractional part.\<close>

definition trunc_toward_zero :: "real \<Rightarrow> int" where
  "trunc_toward_zero r = (if 0 \<le> r then \<lfloor>r\<rfloor> else \<lceil>r\<rceil>)"

text \<open>\<^verbatim>\<open>x[:, i, :]\<close> on \<open>[B, K, T]\<close> gives \<open>[B, T]\<close>, and \<^verbatim>\<open>x[i, :, :]\<close> gives \<open>[K, T]\<close>; an index
  beyond the axis raises \<open>IndexError\<close>.\<close>

definition select_axis1 :: "nat \<Rightarrow> 'a tensor3 \<Rightarrow> error + 'a tensor2" where
  "select_axis1 i x = (case shape3 x of (B, K, T) \<Rightarrow>
     if i < K then Inr \<lparr>shape2 = (B, T), elems2 = map (\<lambda>r. r ! i) (elems3 x)\<rparr>
     else Inl IndexError)"

definition select_axis0 :: "nat \<Rightarrow> 'a tensor3 \<Rightarrow> error + 'a tensor2" where
  "select_axis0 i x = (case shape3 x of (B, K, T) \<Rightarrow>
     if i < B then Inr \<lparr>shape2 = (K, T), elems2 = elems3 x ! i\<rparr>
     else Inl IndexError)"

text \<open>\<^verbatim>\<open>torch.cat(xs, dim=1)\<close> of three-axis tensors: the list must not be empty and the
  tensors must agree on the other two axes.\<close>

definition cat_dim1 :: "'a tensor3 list \<Rightarrow> error + 'a tensor3" where
  "cat_dim1 xs =
     (case xs of
        [] \<Rightarrow> Inl RuntimeError
      | x # _ \<Rightarrow>
          (case shape3 x of (B, _, T) \<Rightarrow>
             if list_all (\<lambda>y. fst (shape3 y) = B \<and> snd (snd (shape3 y)) = T) xs
             then Inr \<lparr>shape3 = (B, sum_list (map (\<lambda>y. fst (snd (shape3 y))) xs), T),
                       elems3 = map (\<lambda>b. concat (map (\<lambda>y. elems3 y ! b) xs)) [0..<B]\<rparr>
             else Inl RuntimeError))"

text \<open>\<^verbatim>\<open>torch.stack(ms, dim=1)\<close> of two-axis tensors \<open>[B, T]\<close>: the list must not be empty and
  the tensors must have one shape; the result is \<open>[B, n, T]\<close>.\<close>

definition stack_dim1 :: "'a tensor2 list \<Rightarrow> error + 'a tensor3" where
  "stack_dim1 ms =
     (case ms of
        [] \<Rightarrow> Inl RuntimeError
      | m # _ \<Rightarrow>
          (case shape2 m of (B, T) \<Rightarrow>
             if list_all (\<lambda>y. shape2 y = (B, T)) ms
             then Inr \<lparr>shape3 = (B, length ms, T),
                       elems3 = map (\<lambda>b. map (\<lambda>y. elems2 y ! b) ms) [0..<B]\<rparr>
             else Inl RuntimeError))"

text \<open>\<^verbatim>\<open>x.chunk(n, dim=1)\<close>: pieces of \<open>ceil(K / n)\<close> codebook rows, the last one shorter when
  \<open>n\<close> does not divide \<open>K\<close>; \<open>n\<close> pieces of no rows when \<open>K = 0\<close>; \<open>n \<le> 0\<close> is an error.\<close>

fun pieces :: "nat \<Rightarrow> nat \<Rightarrow> 'a list \<Rightarrow> 'a list list" where
  "pieces 0 sz xs = []"
| "pieces (Suc fuel) sz xs =
     (if length xs \<le> sz then [xs] else take sz xs # pieces fuel sz (drop sz xs))"

definition chunk_dim1 :: "int \<Rightarrow> 'a tensor3 \<Rightarrow> error + 'a tensor3 list" where
  "chunk_dim1 n x = (case shape3 x of (B, K, T) \<Rightarrow>
     if n \<le> 0 then Inl RuntimeError
     else let sz = (K + nat n - 1) div nat n in
       if sz = 0
       then Inr (replicate (nat n) \<lparr>shape3 = (B, 0, T), elems3 = replicate B []\<rparr>)
       else let sizes = map length (pieces K sz (replicate K ()))
            in Inr (map (\<lambda>j. \<lparr>shape3 = (B, sizes ! j, T),
                                 elems3 = map (\<lambda>r. take (sizes ! j) (drop (j * sz) r)) (elems3 x)\<rparr>)
                        [0..<length sizes]))"

text \<open>Modelled from the spec: \<^verbatim>\<open>decimal_to_ternary_matrix\<close> of the missing \<^verbatim>\<open>utils.py\<close>, as
  \<^verbatim>\<open>encodec.py\<close> calls it: a matrix \<open>[B, T]\<close> of codes and the group length \<open>D\<close> give the
  digits \<open>[B, D, T]\<close>, each code unpacked on its own.\<close>

definition decimal_to_ternary_matrix :: "int tensor2 \<Rightarrow> nat \<Rightarrow> error + int tensor3" where
  "decimal_to_ternary_matrix m D = (case shape2 m of (B, T) \<Rightarrow>
     err_bind (err_sequence (map (\<lambda>row. err_sequence (map (\<lambda>c. unpack c D) row)) (elems2 m)))
       (\<lambda>digits. Inr \<lparr>shape3 = (B, D, T),
                       elems3 = map (\<lambda>b. map (\<lambda>d. map (\<lambda>t. digits ! b ! t ! d) [0..<T]) [0..<D])
                                  [0..<B]\<rparr>))"

text \<open>Modelled from the spec: \<^verbatim>\<open>ternary_matrix_to_decimal\<close> of the missing \<^verbatim>\<open>utils.py\<close>: the
  digits \<open>[B, D, T]\<close> give the codes \<open>[B, T]\<close>, each digit group along the middle axis packed
  on its own.\<close>

definition ternary_matrix_to_decimal :: "int tensor3 \<Rightarrow> error + int tensor2" where
  "ternary_matrix_to_decimal x = (case shape3 x of (B, D, T) \<Rightarrow>
     err_bind (err_sequence (map (\<lambda>b. err_sequence
                 (map (\<lambda>t. pack (map (\<lambda>d. elems3 x ! b ! d ! t) [0..<D])) [0..<T])) [0..<B]))
       (\<lambda>rows. Inr \<lparr>shape2 = (B, T), elems2 = rows\<rparr>))"

section \<open>SQCodec\<close>

text \<open>
  \<^verbatim>\<open>class SQCodec\<close>, the ternary backend. The scalar codec loaded from the checkpoint is
  external: its \<^verbatim>\<open>encode\<close> and \<^verbatim>\<open>decode\<close> are fields, and so is the linear layer
  \<open>proj_layer\<close>, present when \<^verbatim>\<open>hidden_dim\<close> is given and differs from \<^verbatim>\<open>emb_dim\<close>.
\<close>

record 'a tensor4 =
  shape4 :: "nat \<times> nat \<times> nat \<times> nat"
  elems4 :: "'a list list list list"

record SQCodec =
  sq_sample_rate :: int
  dim_codebook :: int
  n_codebook :: int
  bw :: int
  mask_id :: int
  emb_dim :: nat
  proj_layer :: "(real tensor4 \<Rightarrow> error + real tensor4) option"
  use_ternary :: bool
  scalar_codec_encode :: "audio \<Rightarrow> error + audio"
  scalar_codec_decode :: "audio \<Rightarrow> error + audio"

text \<open>\<^verbatim>\<open>SQCodec.__init__\<close> once the checkpoint is loaded; \<open>proj\<close> stands for the layer
  \<^verbatim>\<open>torch.nn.Linear(emb_dim, hidden_dim)\<close>.\<close>

definition SQCodec_init ::
    "(audio \<Rightarrow> error + audio) \<Rightarrow> (audio \<Rightarrow> error + audio) \<Rightarrow>
     (real tensor4 \<Rightarrow> error + real tensor4) \<Rightarrow>
     int \<Rightarrow> int \<Rightarrow> int \<Rightarrow> int \<Rightarrow> nat \<Rightarrow> nat option \<Rightarrow> bool \<Rightarrow> SQCodec" where
  "SQCodec_init codec_encode codec_decode proj sample_rate dim_codebook' n_codebook' bw' emb_dim'
       hidden_dim use_ternary' =
     \<lparr>sq_sample_rate = sample_rate,
      dim_codebook = dim_codebook',
      n_codebook = n_codebook',
      bw = bw',
      mask_id = dim_codebook' * n_codebook',
      emb_dim = emb_dim',
      proj_layer = (if hidden_dim \<noteq> None \<and> hidden_dim \<noteq> Some emb_dim' then Some proj else None),
      use_ternary = use_ternary',
      scalar_codec_encode = codec_encode,
      scalar_codec_decode = codec_decode\<rparr>"

text \<open>The constructor's default arguments: \<^verbatim>\<open>sample_rate=16000, dim_codebook=19683,
  n_codebook=4, bw=2, emb_dim=9, hidden_dim=None, use_ternary=False\<close>.\<close>

definition SQCodec_default ::
    "(audio \<Rightarrow> error + audio) \<Rightarrow> (audio \<Rightarrow> error + audio) \<Rightarrow>
     (real tensor4 \<Rightarrow> error + real tensor4) \<Rightarrow> SQCodec" where
  "SQCodec_default codec_encode codec_decode proj =
     SQCodec_init codec_encode codec_decode proj 16000 19683 4 2 9 None False"

definition SQCodec_total_codebooks :: "SQCodec \<Rightarrow> int" where
  "SQCodec_total_codebooks self = n_codebook self"

definition SQCodec_num_codebooks :: "SQCodec \<Rightarrow> int" where
  "SQCodec_num_codebooks self = n_codebook self"

definition SQCodec_set_num_codebooks :: "SQCodec \<Rightarrow> int \<Rightarrow> error + SQCodec" where
  "SQCodec_set_num_codebooks self n =
     (if \<not> n \<ge> 1 then Inl (AssertionError []) else Inr (self\<lparr>n_codebook := n\<rparr>))"

definition SQCodec_cardinality :: "SQCodec \<Rightarrow> int" where
  "SQCodec_cardinality self = dim_codebook self"

definition SQCodec_set_cardinality :: "SQCodec \<Rightarrow> int \<Rightarrow> error + SQCodec" where
  "SQCodec_set_cardinality self n =
     (if \<not> n \<ge> 1 then Inl (AssertionError []) else Inr (self\<lparr>dim_codebook := n\<rparr>))"

definition SQCodec_channels :: "SQCodec \<Rightarrow> int" where
  "SQCodec_channels self = 1"

definition SQCodec_frame_rate :: "SQCodec \<Rightarrow> real" where
  "SQCodec_frame_rate self = 50"

text \<open>\<^verbatim>\<open>SQCodec.encode\<close>. The scale it returns is \<open>None\<close> on both paths. (The move of the
  result to the GPU is not modelled.)\<close>

definition SQCodec_encode :: "SQCodec \<Rightarrow> audio \<Rightarrow> error + (codes \<times> scale option)" where
  "SQCodec_encode self x =
     err_bind (scalar_codec_encode self x) (\<lambda>compressed.
       if use_ternary self
       then Inr (map_tensor3 (\<lambda>v. trunc_toward_zero v + 1) compressed, None)
       else
         err_bind (chunk_dim1 (n_codebook self) compressed) (\<lambda>chunks.
         err_bind (err_sequence
             (map (\<lambda>chunk. ternary_matrix_to_decimal
                              (map_tensor3 (\<lambda>v. trunc_toward_zero v + 1) chunk)) chunks))
           (\<lambda>codec_ls.
         err_bind (stack_dim1 codec_ls) (\<lambda>codes. Inr (codes, None)))))"

text \<open>\<^verbatim>\<open>SQCodec.decode_latent\<close>: codebook \<open>i\<close> of the codes is unpacked to \<open>emb_dim\<close> digits,
  shifted back by one, for \<open>i\<close> in \<^verbatim>\<open>range(self.n_codebook)\<close>, and the pieces are
  concatenated along the middle axis.\<close>

definition SQCodec_decode_latent :: "SQCodec \<Rightarrow> codes \<Rightarrow> error + codes" where
  "SQCodec_decode_latent self codes =
     err_bind (err_sequence
         (map (\<lambda>i. err_bind (select_axis1 i codes) (\<lambda>m.
                    err_bind (decimal_to_ternary_matrix m (emb_dim self)) (\<lambda>digits.
                    Inr (map_tensor3 (\<lambda>v. v - 1) digits))))
              [0..<nat (n_codebook self)]))
       cat_dim1"

definition SQCodec_decode :: "SQCodec \<Rightarrow> codes \<Rightarrow> scale option \<Rightarrow> error + audio" where
  "SQCodec_decode self codes scale =
     (if \<not> scale = None then Inl (AssertionError [])
      else err_bind (if use_ternary self then Inr (map_tensor3 (\<lambda>v. v - 1) codes)
                     else SQCodec_decode_latent self codes)
             (\<lambda>latent. scalar_codec_decode self (map_tensor3 real_of_int latent)))"

text \<open>
  \<^verbatim>\<open>SQCodec.encode_embedding\<close>. Its loop body reads \<^verbatim>\<open>in_tokens\<close>, a name the function never
  assigns, so Python looks it up among the module's globals (and then the builtins, which
  hold only the language's own names). \<open>module_globals\<close> lists every name
  \<^verbatim>\<open>encodec.py\<close> binds at module level: its imports, \<^verbatim>\<open>logger\<close>, its classes, and the names
  its \<^verbatim>\<open>__main__\<close> block binds when the file is run as a script.
\<close>

datatype pyvalue = TensorVal codes | ObjectVal

definition module_globals :: "(string \<times> pyvalue) list" where
  "module_globals = map (\<lambda>name. (name, ObjectVal))
     [''sys'', ''ABC'', ''abstractmethod'', ''os'', ''logging'', ''math'', ''Path'', ''tp'',
      ''rearrange'', ''np'', ''torch'', ''nn'', ''HFEncodecModel'', ''qt'', ''checkpoint'',
      ''ScalarModel'', ''decimal_to_ternary_matrix'', ''ternary_matrix_to_decimal'',
      ''logger'', ''CompressionModel'', ''EncodecModel'', ''DAC'', ''SQCodec'',
      ''WavTokenizer'', ''HFEncodecCompressionModel'', ''InterleaveStereoCompressionModel'',
      ''torchaudio'', ''plt'', ''sqcodec'', ''x'', ''sr'', ''q'', ''y'']"

definition load_global :: "(string \<times> pyvalue) list \<Rightarrow> string \<Rightarrow> error + pyvalue" where
  "load_global globals name =
     (case map_of globals name of None \<Rightarrow> Inl (NameError name) | Some v \<Rightarrow> Inr v)"

text \<open>\<^verbatim>\<open>codes.permute(2, 0, 1)\<close> on \<open>[B, K, T]\<close> gives \<open>[T, B, K]\<close>; \<^verbatim>\<open>torch.stack(xs, dim=0)\<close>
  of tensors \<open>[B, D, T]\<close> gives \<open>[N, B, D, T]\<close>; \<^verbatim>\<open>permute(1, 3, 0, 2)\<close> then gives
  \<open>[B, T, N, D]\<close>.\<close>

definition permute_2_0_1 :: "'a tensor3 \<Rightarrow> 'a tensor3" where
  "permute_2_0_1 x = (case shape3 x of (B, K, T) \<Rightarrow>
     \<lparr>shape3 = (T, B, K),
      elems3 = map (\<lambda>t. map (\<lambda>b. map (\<lambda>k. elems3 x ! b ! k ! t) [0..<K]) [0..<B]) [0..<T]\<rparr>)"

definition stack_dim0 :: "'a tensor3 list \<Rightarrow> error + 'a tensor4" where
  "stack_dim0 xs =
     (case xs of
        [] \<Rightarrow> Inl RuntimeError
      | x # _ \<Rightarrow>
          (case shape3 x of (B, K, T) \<Rightarrow>
             if list_all (\<lambda>y. shape3 y = (B, K, T)) xs
             then Inr \<lparr>shape4 = (length xs, B, K, T), elems4 = map elems3 xs\<rparr>
             else Inl RuntimeError))"

definition permute_1_3_0_2 :: "'a tensor4 \<Rightarrow> 'a tensor4" where
  "permute_1_3_0_2 x = (case shape4 x of (N, B, D, T) \<Rightarrow>
     \<lparr>shape4 = (B, T, N, D),
      elems4 = map (\<lambda>b. map (\<lambda>t. map (\<lambda>n. map (\<lambda>d. elems4 x ! n ! b ! d ! t) [0..<D]) [0..<N])
                 [0..<T]) [0..<B]\<rparr>)"

definition map_tensor4 :: "('a \<Rightarrow> 'b) \<Rightarrow> 'a tensor4 \<Rightarrow> 'b tensor4" where
  "map_tensor4 f x = \<lparr>shape4 = shape4 x, elems4 = map (map (map (map f))) (elems4 x)\<rparr>"

definition SQCodec_encode_embedding :: "SQCodec \<Rightarrow> codes \<Rightarrow> error + real tensor4" where
  "SQCodec_encode_embedding self codes =
     (let codes' = permute_2_0_1 codes in
      err_bind (err_sequence
          (map (\<lambda>i. err_bind (load_global module_globals ''in_tokens'') (\<lambda>v.
                     case v of
                       ObjectVal \<Rightarrow> Inl TypeError
                     | TensorVal in_tokens \<Rightarrow>
                         err_bind (select_axis0 i in_tokens) (\<lambda>m.
                         err_bind (decimal_to_ternary_matrix m (emb_dim self)) (\<lambda>digits.
                         Inr (map_tensor3 (\<lambda>v. v - 1) digits)))))
               [0..<nat (SQCodec_num_codebooks self)]))
        (\<lambda>in_embs.
      err_bind (stack_dim0 in_embs) (\<lambda>stacked.
        let in_embs' = permute_1_3_0_2 (map_tensor4 real_of_int stacked) in
        case proj_layer self of None \<Rightarrow> Inr in_embs' | Some proj \<Rightarrow> proj in_embs')))"

section \<open>EncodecModel\<close>

text \<open>
  \<^verbatim>\<open>class EncodecModel\<close>. The encoder, decoder and quantizer networks are external and are
  fields of the record. \<open>em_normalize\<close> stands for the floating-point computation of
  \<^verbatim>\<open>preprocess\<close> (the volume of the mono mix, \<^verbatim>\<open>scale = 1e-8 + volume\<close>, \<^verbatim>\<open>x / scale\<close>,
  \<^verbatim>\<open>scale.view(-1, 1)\<close>).
\<close>

record EncodecModel =
  em_frame_rate :: real
  em_sample_rate :: int
  em_channels :: int
  renormalize :: bool
  causal :: bool
  encoder :: "audio \<Rightarrow> error + audio"
  decoder :: "audio \<Rightarrow> error + audio"
  quantizer_encode :: "audio \<Rightarrow> error + codes"
  quantizer_decode :: "codes \<Rightarrow> error + audio"
  em_normalize :: "audio \<Rightarrow> audio \<times> scale"

definition EncodecModel_preprocess :: "EncodecModel \<Rightarrow> audio \<Rightarrow> audio \<times> scale option" where
  "EncodecModel_preprocess self x =
     (if renormalize self then (case em_normalize self x of (x', scale) \<Rightarrow> (x', Some scale))
      else (x, None))"

text \<open>\<^verbatim>\<open>x * scale.view(-1, 1, 1)\<close>: the scale is flattened to \<open>[N, 1, 1]\<close> and broadcast against
  \<open>x\<close> of shape \<open>[B, C, T]\<close>, which needs \<open>N = B\<close>, \<open>N = 1\<close> or \<open>B = 1\<close>. The product of two
  floats is written as the product of reals.\<close>

definition scale_mul :: "audio \<Rightarrow> scale \<Rightarrow> error + audio" where
  "scale_mul x scale = (case shape3 x of (B, C, T) \<Rightarrow>
     let flat = concat (elems2 scale); N = length flat in
     if N = B
     then Inr \<lparr>shape3 = (B, C, T),
               elems3 = map (\<lambda>b. map (map (\<lambda>v. v * flat ! b)) (elems3 x ! b)) [0..<B]\<rparr>
     else if N = 1
     then Inr \<lparr>shape3 = (B, C, T), elems3 = map (map (map (\<lambda>v. v * flat ! 0))) (elems3 x)\<rparr>
     else if B = 1
     then Inr \<lparr>shape3 = (N, C, T),
               elems3 = map (\<lambda>n. map (map (\<lambda>v. v * flat ! n)) (elems3 x ! 0)) [0..<N]\<rparr>
     else Inl RuntimeError)"

definition EncodecModel_postprocess :: "EncodecModel \<Rightarrow> audio \<Rightarrow> scale option \<Rightarrow> error + audio" where
  "EncodecModel_postprocess self x scale =
     (case scale of
        None \<Rightarrow> Inr x
      | Some s \<Rightarrow> if \<not> renormalize self then Inl (AssertionError []) else scale_mul x s)"

definition EncodecModel_encode :: "EncodecModel \<Rightarrow> audio \<Rightarrow> error + (codes \<times> scale option)" where
  "EncodecModel_encode self x =
     (case EncodecModel_preprocess self x of (x', scale) \<Rightarrow>
        err_bind (encoder self x') (\<lambda>emb.
        err_bind (quantizer_encode self emb) (\<lambda>codes. Inr (codes, scale))))"

definition EncodecModel_decode_latent :: "EncodecModel \<Rightarrow> codes \<Rightarrow> error + audio" where
  "EncodecModel_decode_latent self codes = quantizer_decode self codes"

definition EncodecModel_decode :: "EncodecModel \<Rightarrow> codes \<Rightarrow> scale option \<Rightarrow> error + audio" where
  "EncodecModel_decode self codes scale =
     err_bind (EncodecModel_decode_latent self codes) (\<lambda>emb.
     err_bind (decoder self emb) (\<lambda>out.
     EncodecModel_postprocess self out scale))"

section \<open>The CompressionModel interface\<close>

text \<open>
  \<^verbatim>\<open>class CompressionModel\<close> is the abstract interface. A class that implements it is the
  table of its methods, each taking the instance \<open>'m\<close>. \<^verbatim>\<open>set_num_codebooks\<close> mutates the
  instance, so it returns the updated one.
\<close>

record 'm CompressionModel =
  channels :: "'m \<Rightarrow> int"
  frame_rate :: "'m \<Rightarrow> real"
  sample_rate :: "'m \<Rightarrow> int"
  cardinality :: "'m \<Rightarrow> int"
  num_codebooks :: "'m \<Rightarrow> int"
  total_codebooks :: "'m \<Rightarrow> int"
  set_num_codebooks :: "'m \<Rightarrow> int \<Rightarrow> error + 'm"
  encode :: "'m \<Rightarrow> audio \<Rightarrow> error + (codes \<times> scale option)"
  decode :: "'m \<Rightarrow> codes \<Rightarrow> scale option \<Rightarrow> error + audio"

definition SQCodec_class :: "SQCodec CompressionModel" where
  "SQCodec_class =
     \<lparr>channels = SQCodec_channels,
      frame_rate = SQCodec_frame_rate,
      sample_rate = sq_sample_rate,
      cardinality = SQCodec_cardinality,
      num_codebooks = SQCodec_num_codebooks,
      total_codebooks = SQCodec_total_codebooks,
      set_num_codebooks = SQCodec_set_num_codebooks,
      encode = SQCodec_encode,
      decode = SQCodec_decode\<rparr>"

definition DAC_class :: "DAC CompressionModel" where
  "DAC_class =
     \<lparr>channels = DAC_channels,
      frame_rate = DAC_frame_rate,
      sample_rate = dac_sample_rate,
      cardinality = DAC_cardinality,
      num_codebooks = DAC_num_codebooks,
      total_codebooks = DAC_total_codebooks,
      set_num_codebooks = DAC_set_num_codebooks,
      encode = DAC_encode,
      decode = DAC_decode\<rparr>"

section \<open>InterleaveStereoCompressionModel\<close>

text \<open>
  \<^verbatim>\<open>einops.rearrange\<close> for the four patterns the wrapper uses. A composite axis \<open>(k c)\<close>
  with \<open>c = 2\<close> has index \<open>k * 2 + c\<close>; decomposing an axis whose length is odd raises
  \<open>EinopsError\<close>, and so does a stacked tensor whose first axis is not 2.
\<close>

definition rearrange_cbkt_to_b_k_tc :: "'a tensor4 \<Rightarrow> error + 'a tensor3" where
  "rearrange_cbkt_to_b_k_tc x = (case shape4 x of (C, B, K, T) \<Rightarrow>
     if C \<noteq> 2 then Inl EinopsError
     else Inr \<lparr>shape3 = (B, K, T * 2),
               elems3 = map (\<lambda>b. map (\<lambda>k. map (\<lambda>j. elems4 x ! (j mod 2) ! b ! k ! (j div 2))
                                             [0..<T * 2]) [0..<K]) [0..<B]\<rparr>)"

definition rearrange_cbkt_to_b_kc_t :: "'a tensor4 \<Rightarrow> error + 'a tensor3" where
  "rearrange_cbkt_to_b_kc_t x = (case shape4 x of (C, B, K, T) \<Rightarrow>
     if C \<noteq> 2 then Inl EinopsError
     else Inr \<lparr>shape3 = (B, K * 2, T),
               elems3 = map (\<lambda>b. map (\<lambda>j. map (\<lambda>t. elems4 x ! (j mod 2) ! b ! (j div 2) ! t)
                                             [0..<T]) [0..<K * 2]) [0..<B]\<rparr>)"

definition rearrange_b_k_tc_to_cbkt :: "'a tensor3 \<Rightarrow> error + 'a tensor4" where
  "rearrange_b_k_tc_to_cbkt x = (case shape3 x of (B, K, T2) \<Rightarrow>
     if T2 mod 2 \<noteq> 0 then Inl EinopsError
     else Inr \<lparr>shape4 = (2, B, K, T2 div 2),
               elems4 = map (\<lambda>c. map (\<lambda>b. map (\<lambda>k. map (\<lambda>t. elems3 x ! b ! k ! (t * 2 + c))
                                                       [0..<T2 div 2]) [0..<K]) [0..<B])
                          [0..<2]\<rparr>)"

definition rearrange_b_kc_t_to_cbkt :: "'a tensor3 \<Rightarrow> error + 'a tensor4" where
  "rearrange_b_kc_t_to_cbkt x = (case shape3 x of (B, K2, T) \<Rightarrow>
     if K2 mod 2 \<noteq> 0 then Inl EinopsError
     else Inr \<lparr>shape4 = (2, B, K2 div 2, T),
               elems4 = map (\<lambda>c. map (\<lambda>b. map (\<lambda>k. map (\<lambda>t. elems3 x ! b ! (k * 2 + c) ! t)
                                                       [0..<T]) [0..<K2 div 2]) [0..<B])
                          [0..<2]\<rparr>)"

text \<open>\<^verbatim>\<open>codes[i]\<close> on a four-axis tensor.\<close>

definition index_axis0 :: "nat \<Rightarrow> 'a tensor4 \<Rightarrow> error + 'a tensor3" where
  "index_axis0 i x = (case shape4 x of (C, B, K, T) \<Rightarrow>
     if i < C then Inr \<lparr>shape3 = (B, K, T), elems3 = elems4 x ! i\<rparr> else Inl IndexError)"

text \<open>The wrapper holds the wrapped model, the class it is an instance of, and the
  interleaving mode.\<close>

record 'm InterleaveStereoCompressionModel =
  model_class :: "'m CompressionModel"
  model :: 'm
  per_timestep :: bool

definition Stereo_init ::
    "'m CompressionModel \<Rightarrow> 'm \<Rightarrow> bool \<Rightarrow> error + 'm InterleaveStereoCompressionModel" where
  "Stereo_init cls m per_timestep' =
     (if \<not> channels cls m = 1
      then Inl (AssertionError ''Wrapped model is expected to be for monophonic audio'')
      else Inr \<lparr>model_class = cls, model = m, per_timestep = per_timestep'\<rparr>)"

definition Stereo_total_codebooks :: "'m InterleaveStereoCompressionModel \<Rightarrow> int" where
  "Stereo_total_codebooks self = total_codebooks (model_class self) (model self)"

definition Stereo_num_codebooks :: "'m InterleaveStereoCompressionModel \<Rightarrow> int" where
  "Stereo_num_codebooks self =
     (if per_timestep self then num_codebooks (model_class self) (model self)
      else num_codebooks (model_class self) (model self) * 2)"

definition Stereo_set_num_codebooks ::
    "'m InterleaveStereoCompressionModel \<Rightarrow> int \<Rightarrow> error + 'm InterleaveStereoCompressionModel" where
  "Stereo_set_num_codebooks self n =
     err_bind (set_num_codebooks (model_class self) (model self) n)
       (\<lambda>m. Inr (self\<lparr>model := m\<rparr>))"

definition Stereo_num_virtual_steps :: "'m InterleaveStereoCompressionModel \<Rightarrow> nat" where
  "Stereo_num_virtual_steps self = (if per_timestep self then 2 else 1)"

definition Stereo_frame_rate :: "'m InterleaveStereoCompressionModel \<Rightarrow> real" where
  "Stereo_frame_rate self =
     frame_rate (model_class self) (model self) * real (Stereo_num_virtual_steps self)"

definition Stereo_sample_rate :: "'m InterleaveStereoCompressionModel \<Rightarrow> int" where
  "Stereo_sample_rate self = sample_rate (model_class self) (model self)"

definition Stereo_channels :: "'m InterleaveStereoCompressionModel \<Rightarrow> int" where
  "Stereo_channels self = 2"

definition Stereo_cardinality :: "'m InterleaveStereoCompressionModel \<Rightarrow> int" where
  "Stereo_cardinality self = cardinality (model_class self) (model self)"

text \<open>\<^verbatim>\<open>x[:, c, ...].unsqueeze(1)\<close>: channel \<open>c\<close> of a frame as a mono frame \<open>[B, 1, T]\<close>.\<close>

definition mono_channel :: "nat \<Rightarrow> audio \<Rightarrow> error + audio" where
  "mono_channel c x = err_bind (select_axis1 c x) (\<lambda>m. Inr (unsqueeze_1 m))"

text \<open>Lines 741 to 743 of \<^verbatim>\<open>encode\<close>: the scales are stacked with
  \<^verbatim>\<open>torch.stack([scales_c0, scales_c1], dim=1)\<close> when both are present.\<close>

definition Stereo_stack_scales :: "scale option \<Rightarrow> scale option \<Rightarrow> error + real tensor3 option" where
  "Stereo_stack_scales scales_c0 scales_c1 =
     (case (scales_c0, scales_c1) of
        (Some s0, Some s1) \<Rightarrow> err_bind (stack_dim1 [s0, s1]) (\<lambda>scales. Inr (Some scales))
      | _ \<Rightarrow> Inr None)"

definition Stereo_encode ::
    "'m InterleaveStereoCompressionModel \<Rightarrow> audio \<Rightarrow> error + (codes \<times> real tensor3 option)" where
  "Stereo_encode self x = (case shape3 x of (B, C, T) \<Rightarrow>
     if \<not> int C = Stereo_channels self
     then Inl (AssertionError (''Expecting stereo audio but audio num channels is '' @ str_nat C))
     else
       err_bind (mono_channel 0 x) (\<lambda>x0.
       err_bind (encode (model_class self) (model self) x0) (\<lambda>(indices_c0, scales_c0).
       err_bind (mono_channel 1 x) (\<lambda>x1.
       err_bind (encode (model_class self) (model self) x1) (\<lambda>(indices_c1, scales_c1).
       err_bind (stack_dim0 [indices_c0, indices_c1]) (\<lambda>stacked.
       err_bind (Stereo_stack_scales scales_c0 scales_c1) (\<lambda>scales.
       err_bind (if per_timestep self then rearrange_cbkt_to_b_k_tc stacked
                 else rearrange_cbkt_to_b_kc_t stacked) (\<lambda>indices.
       Inr (indices, scales)))))))))"

definition Stereo_get_left_right_codes ::
    "'m InterleaveStereoCompressionModel \<Rightarrow> codes \<Rightarrow> error + (codes \<times> codes)" where
  "Stereo_get_left_right_codes self codes =
     err_bind (if per_timestep self then rearrange_b_k_tc_to_cbkt codes
               else rearrange_b_kc_t_to_cbkt codes) (\<lambda>codes'.
     err_bind (index_axis0 0 codes') (\<lambda>left.
     err_bind (index_axis0 1 codes') (\<lambda>right. Inr (left, right))))"

text \<open>Lines 764 to 768 of \<^verbatim>\<open>decode\<close>: the check of the scale's shape, then \<^verbatim>\<open>scale[0, ...]\<close>
  and \<^verbatim>\<open>scale[1, ...]\<close>.\<close>

definition Stereo_split_scale ::
    "nat \<Rightarrow> real tensor3 option \<Rightarrow> error + (scale option \<times> scale option)" where
  "Stereo_split_scale B scale =
     (case scale of
        None \<Rightarrow> Inr (None, None)
      | Some s \<Rightarrow>
          (case shape3 s of (S0, S1, R) \<Rightarrow>
             if \<not> (S0 = B \<and> S1 = 2)
             then Inl (AssertionError (''Scale has unexpected shape: torch.Size('' @
                         repr_int_list [int S0, int S1, int R] @ '')''))
             else
               err_bind (select_axis0 0 s) (\<lambda>scale_c0.
               err_bind (select_axis0 1 s) (\<lambda>scale_c1.
               Inr (Some scale_c0, Some scale_c1)))))"

definition Stereo_decode ::
    "'m InterleaveStereoCompressionModel \<Rightarrow> codes \<Rightarrow> real tensor3 option \<Rightarrow> error + audio" where
  "Stereo_decode self codes scale = (case shape3 codes of (B, K, T) \<Rightarrow>
     if \<not> T mod Stereo_num_virtual_steps self = 0
     then Inl (AssertionError ''Provided codes' number of timesteps does not match'')
     else if \<not> int K = Stereo_num_codebooks self
     then Inl (AssertionError ''Provided codes' number of codebooks does not match'')
     else
       err_bind (Stereo_split_scale B scale) (\<lambda>(scale_c0, scale_c1).
       err_bind (Stereo_get_left_right_codes self codes) (\<lambda>(codes_c0, codes_c1).
       err_bind (decode (model_class self) (model self) codes_c0 scale_c0) (\<lambda>audio_c0.
       err_bind (decode (model_class self) (model self) codes_c1 scale_c1) (\<lambda>audio_c1.
       cat_dim1 [audio_c0, audio_c1])))))"

definition Stereo_decode_latent ::
    "'m InterleaveStereoCompressionModel \<Rightarrow> codes \<Rightarrow> error + audio" where
  "Stereo_decode_latent self codes =
     Inl (NotImplementedError ''Not supported by interleaved stereo wrapped models.'')"

section \<open>Example instances\<close>

text \<open>Concrete instances, with stand-ins for the external networks, on which the
  theorems below are evaluated.\<close>

definition example_sqcodec :: SQCodec where
  "example_sqcodec = SQCodec_default Inr Inr Inr"

definition example_dac :: DAC where
  "example_dac =
     \<lparr>dac_sample_rate = 44100, dac_hop_length = 512, dac_codebook_size = 1024,
      dac_n_codebooks = 9, n_quantizers = 9,
      dac_model_encode = (\<lambda>x n. Inr (map_tensor3 trunc_toward_zero x)),
      dac_from_codes = (\<lambda>c. Inr (map_tensor3 real_of_int c)),
      dac_model_decode = Inr\<rparr>"

definition example_hf :: HFEncodecCompressionModel where
  "example_hf =
     \<lparr>possible_num_codebooks = [2, 4, 8, 16, 32], hf_num_codebooks = 32,
      hf_codebook_size = 1024, hf_audio_channels = 1\<rparr>"

definition example_wavtokenizer :: WavTokenizer where
  "example_wavtokenizer =
     \<lparr>wt_n_quantizers = 1,
      wt_codes_to_features = (\<lambda>c. Inr (map_tensor3 real_of_int c)),
      wt_model_decode = (\<lambda>f. Inr \<lparr>shape2 = (fst (shape3 f), snd (snd (shape3 f))),
                                     elems2 = map concat (elems3 f)\<rparr>)\<rparr>"

definition example_encodec :: EncodecModel where
  "example_encodec =
     \<lparr>em_frame_rate = 50, em_sample_rate = 32000, em_channels = 1,
      renormalize = True, causal = False,
      encoder = Inr, decoder = Inr,
      quantizer_encode = (\<lambda>emb. Inr (map_tensor3 trunc_toward_zero emb)),
      quantizer_decode = (\<lambda>codes. Inr (map_tensor3 real_of_int codes)),
      em_normalize = (\<lambda>x. (x, \<lparr>shape2 = (fst (shape3 x), 1),
                                    elems2 = replicate (fst (shape3 x)) [1]\<rparr>))\<rparr>"

definition example_frame :: audio where
  "example_frame = \<lparr>shape3 = (1, 1, 2), elems3 = [[[0, 1]]]\<rparr>"

definition example_codes :: codes where
  "example_codes = \<lparr>shape3 = (1, 1, 2), elems3 = [[[0, 1]]]\<rparr>"

definition example_scale :: scale where
  "example_scale = \<lparr>shape2 = (1, 1), elems2 = [[1]]\<rparr>"

definition example_stereo_frame :: audio where
  "example_stereo_frame = \<lparr>shape3 = (1, 2, 2), elems3 = [[[0, 1], [1, -1]]]\<rparr>"

definition example_left_codes :: codes where
  "example_left_codes = \<lparr>shape3 = (1, 1, 2), elems3 = [[[1, 2]]]\<rparr>"

definition example_right_codes :: codes where
  "example_right_codes = \<lparr>shape3 = (1, 1, 2), elems3 = [[[2, 0]]]\<rparr>"

definition example_stereo :: "bool \<Rightarrow> SQCodec InterleaveStereoCompressionModel" where
  "example_stereo per_timestep' =
     \<lparr>model_class = SQCodec_class, model = example_sqcodec, per_timestep = per_timestep'\<rparr>"

definition example_small_stereo :: "SQCodec InterleaveStereoCompressionModel" where
  "example_small_stereo =
     \<lparr>model_class = SQCodec_class, model = example_sqcodec\<lparr>n_codebook := 1, emb_dim := 2\<rparr>,
      per_timestep = True\<rparr>"

definition example_scale_left :: scale where
  "example_scale_left = \<lparr>shape2 = (3, 1), elems2 = [[1], [2], [3]]\<rparr>"

definition example_scale_right :: scale where
  "example_scale_right = \<lparr>shape2 = (3, 1), elems2 = [[4], [5], [6]]\<rparr>"

definition example_stacked_scale :: "real tensor3" where
  "example_stacked_scale = \<lparr>shape3 = (3, 2, 1), elems3 = [[[1], [4]], [[2], [5]], [[3], [6]]]\<rparr>"

definition example_odd_codes :: codes where
  "example_odd_codes = \<lparr>shape3 = (1, 4, 3), elems3 = [[[1, 2, 3], [4, 5, 6], [7, 8, 9], [10, 11, 12]]]\<rparr>"

definition example_interleaved_codes :: codes where
  "example_interleaved_codes = \<lparr>shape3 = (1, 1, 2), elems3 = [[[5, 7]]]\<rparr>"

section \<open>Properties of the radix-3 codec\<close>

lemma lsd_digits_zero [simp]: "lsd_digits 0 = []"
  by (subst lsd_digits.simps) simp

lemma lsd_digits_step:
  assumes "0 \<le> p" and "0 \<le> d" and "d \<le> 2" and "0 < 3 * p + d"
  shows "lsd_digits (3 * p + d) = d # lsd_digits p"
proof -
  have m: "(3 * p + d) mod 3 = d" using assms by presburger
  have q: "(3 * p + d) div 3 = p" using assms by presburger
  have "lsd_digits (3 * p + d) = ((3 * p + d) mod 3) # lsd_digits ((3 * p + d) div 3)"
    using assms(4) by (subst lsd_digits.simps) simp
  then show ?thesis by (simp only: m q)
qed

lemma pack_value_snoc: "pack_value (v @ [d]) = 3 * pack_value v + d"
  by (induction v) (simp_all add: algebra_simps)

lemma pack_value_nonneg: "list_all (\<lambda>d. 0 \<le> d \<and> d \<le> 2) v \<Longrightarrow> 0 \<le> pack_value v"
  by (induction v) simp_all

lemma pack_value_upper: "list_all (\<lambda>d. 0 \<le> d \<and> d \<le> 2) v \<Longrightarrow> pack_value v < 3 ^ length v"
proof (induction v)
  case Nil
  then show ?case by simp
next
  case (Cons d ds)
  then have "d \<le> 2" and rest: "pack_value ds < 3 ^ length ds"
    by simp_all
  then have "d * 3 ^ length ds \<le> 2 * 3 ^ length ds"
    by (intro mult_right_mono) simp_all
  moreover have "pack_value (d # ds) = d * 3 ^ length ds + pack_value ds"
    and "(3::int) ^ length (d # ds) = 3 * 3 ^ length ds"
    by simp_all
  ultimately show ?case using rest by linarith
qed

text \<open>The digit loop never produces more digits than were packed, and padding its reversed
  output with zeros gives the packed sequence back.\<close>

lemma unpack_digits_of_pack_value:
  "list_all (\<lambda>d. 0 \<le> d \<and> d \<le> 2) v \<Longrightarrow>
     length (lsd_digits (pack_value v)) \<le> length v \<and>
     replicate (length v - length (lsd_digits (pack_value v))) 0 @ rev (lsd_digits (pack_value v)) = v"
proof (induction v rule: rev_induct)
  case Nil
  then show ?case by (simp add: lsd_digits_zero)
next
  case (snoc d v)
  let ?p = "pack_value v"
  from snoc.prems have dv: "list_all (\<lambda>d. 0 \<le> d \<and> d \<le> 2) v" and d: "0 \<le> d" "d \<le> 2"
    by simp_all
  from snoc.IH [OF dv] have len: "length (lsd_digits ?p) \<le> length v"
    and pad: "replicate (length v - length (lsd_digits ?p)) 0 @ rev (lsd_digits ?p) = v"
    by simp_all
  have p0: "0 \<le> ?p" using dv by (rule pack_value_nonneg)
  show ?case
  proof (cases "3 * ?p + d = 0")
    case True
    with p0 d have "?p = 0" and "d = 0" by linarith+
    have r: "replicate (length v) 0 = v" using pad \<open>?p = 0\<close> by simp
    have "replicate (Suc (length v)) (0::int) = replicate (length v) 0 @ [0]"
      by (simp add: replicate_append_same)
    also have "\<dots> = v @ [d]" using \<open>d = 0\<close> by (simp only: r)
    finally have full: "replicate (Suc (length v)) 0 = v @ [d]" .
    have pv: "pack_value (v @ [d]) = 0"
      using \<open>?p = 0\<close> \<open>d = 0\<close> by (simp add: pack_value_snoc)
    show ?thesis unfolding pv using full by simp
  next
    case False
    with p0 d have "0 < 3 * ?p + d" by linarith
    with p0 d have step: "lsd_digits (3 * ?p + d) = d # lsd_digits ?p"
      by (intro lsd_digits_step)
    have "Suc (length v) - Suc (length (lsd_digits ?p)) = length v - length (lsd_digits ?p)"
      by simp
    with len pad show ?thesis
      by (simp add: pack_value_snoc step)
  qed
qed

text \<open>
  C1. Round trip of the radix-3 codec: for every digit vector \<open>v\<close> whose digits all lie in
  \<open>{0, 1, 2}\<close>, pack succeeds with a code \<open>c\<close>, and unpacking \<open>c\<close> with group length
  \<open>D = length v\<close> succeeds and returns \<open>v\<close> exactly.
\<close>

theorem unpack_pack_roundtrip:
  assumes "list_all (\<lambda>d. 0 \<le> d \<and> d \<le> 2) v"
  shows "\<exists>c. pack v = Inr c \<and> unpack c (length v) = Inr v"
proof -
  have "pack v = Inr (pack_value v)" using assms by (simp add: pack_def)
  moreover have "0 \<le> pack_value v" using assms by (rule pack_value_nonneg)
  moreover have "pack_value v < 3 ^ length v" using assms by (rule pack_value_upper)
  moreover note unpack_digits_of_pack_value [OF assms]
  ultimately show ?thesis by (simp add: unpack_def Let_def)
qed

theorem unpack_pack_roundtrip_witness:
  "list_all (\<lambda>d. 0 \<le> d \<and> d \<le> 2) [2, 0, 0, 1 :: int] \<and>
   (\<exists>c. pack [2, 0, 0, 1] = Inr c \<and> unpack c (length [2, 0, 0, 1 :: int]) = Inr [2, 0, 0, 1])"
  using unpack_pack_roundtrip [of "[2, 0, 0, 1]"] by simp

text \<open>
  C5. The concrete scenario of the specification: with group length 4 and
  most-significant-first ordering, the digit group \<open>[1, 0, 2, 1]\<close> packs to 34, and
  unpacking 34 with \<open>D = 4\<close> returns \<open>[1, 0, 2, 1]\<close>.
\<close>

theorem pack_unpack_scenario:
  "pack [1, 0, 2, 1] = Inr 34 \<and> unpack 34 4 = Inr [1, 0, 2, 1]"
proof
  show "pack [1, 0, 2, 1] = Inr 34" by (simp add: pack_def)
  have "lsd_digits 34 = [1, 2, 0, 1]" by code_simp
  then show "unpack 34 4 = Inr [1, 0, 2, 1]" by (simp add: unpack_def)
qed

lemma foldl_max_init: "(n::int) \<le> foldl max n ns"
proof (induction ns arbitrary: n)
  case Nil
  show ?case by simp
next
  case (Cons a ns)
  have "max n a \<le> foldl max (max n a) ns" by (rule Cons.IH)
  then show ?case by simp
qed

lemma foldl_max_mem: "x \<in> set ns \<Longrightarrow> x \<le> foldl max (n::int) ns"
proof (induction ns arbitrary: n)
  case Nil
  then show ?case by simp
next
  case (Cons a ns)
  show ?case
  proof (cases "x = a")
    case True
    have "max n a \<le> foldl max (max n a) ns" by (rule foldl_max_init)
    with True show ?thesis by simp
  next
    case False
    with Cons.prems have "x \<in> set ns" by simp
    then show ?thesis using Cons.IH by simp
  qed
qed

section \<open>The active codebook count\<close>

text \<open>
  C3, as the code has it. \<^verbatim>\<open>set_num_codebooks(n)\<close> succeeds exactly when
  \<open>1 \<le> n \<le> total_codebooks\<close> for DAC and for WavTokenizer (whose total is 1), and exactly
  when \<open>n\<close> is in \<open>possible_num_codebooks\<close> for the HuggingFace wrapper, whose rejection is a
  \<open>ValueError\<close> that lists the allowed values (each of them at most \<open>total_codebooks\<close>). The
  rejections of DAC and WavTokenizer are assertion failures. SQCodec checks the lower
  bound only: every \<open>n \<ge> 1\<close> succeeds and becomes both the active and the total count.
\<close>

theorem set_num_codebooks_accepts:
  "DAC_set_num_codebooks d n =
     (if 1 \<le> n \<and> n \<le> DAC_total_codebooks d then Inr (d\<lparr>n_quantizers := n\<rparr>)
      else Inl (AssertionError []))
   \<and> WavTokenizer_set_num_codebooks w n =
     (if 1 \<le> n \<and> n \<le> WavTokenizer_total_codebooks w then Inr (w\<lparr>wt_n_quantizers := n\<rparr>)
      else Inl (AssertionError ''WavTokenizer only supports 1 codebook''))
   \<and> HF_set_num_codebooks h n =
     (if n \<in> set (possible_num_codebooks h) then Inr (h\<lparr>hf_num_codebooks := n\<rparr>)
      else Inl (ValueError (''Allowed values for num codebooks: '' @
                  repr_int_list (possible_num_codebooks h))))
   \<and> (\<forall>t. n \<in> set (possible_num_codebooks h) \<and> HF_total_codebooks h = Inr t \<longrightarrow> n \<le> t)
   \<and> SQCodec_set_num_codebooks q n =
     (if 1 \<le> n then Inr (q\<lparr>n_codebook := n\<rparr>) else Inl (AssertionError []))
   \<and> (\<forall>q'. SQCodec_set_num_codebooks q n = Inr q' \<longrightarrow>
         SQCodec_num_codebooks q' = n \<and> SQCodec_total_codebooks q' = n)"
proof (intro conjI)
  show "DAC_set_num_codebooks d n =
     (if 1 \<le> n \<and> n \<le> DAC_total_codebooks d then Inr (d\<lparr>n_quantizers := n\<rparr>)
      else Inl (AssertionError []))"
    by (simp add: DAC_set_num_codebooks_def)
  show "WavTokenizer_set_num_codebooks w n =
     (if 1 \<le> n \<and> n \<le> WavTokenizer_total_codebooks w then Inr (w\<lparr>wt_n_quantizers := n\<rparr>)
      else Inl (AssertionError ''WavTokenizer only supports 1 codebook''))"
    by (auto simp: WavTokenizer_set_num_codebooks_def WavTokenizer_total_codebooks_def)
  show "HF_set_num_codebooks h n =
     (if n \<in> set (possible_num_codebooks h) then Inr (h\<lparr>hf_num_codebooks := n\<rparr>)
      else Inl (ValueError (''Allowed values for num codebooks: '' @
                  repr_int_list (possible_num_codebooks h))))"
    by (simp add: HF_set_num_codebooks_def)
  show "\<forall>t. n \<in> set (possible_num_codebooks h) \<and> HF_total_codebooks h = Inr t \<longrightarrow> n \<le> t"
    by (auto simp: HF_total_codebooks_def foldl_max_init foldl_max_mem split: list.splits)
  show "SQCodec_set_num_codebooks q n =
     (if 1 \<le> n then Inr (q\<lparr>n_codebook := n\<rparr>) else Inl (AssertionError []))"
    by (simp add: SQCodec_set_num_codebooks_def)
  show "\<forall>q'. SQCodec_set_num_codebooks q n = Inr q' \<longrightarrow>
         SQCodec_num_codebooks q' = n \<and> SQCodec_total_codebooks q' = n"
    by (auto simp: SQCodec_set_num_codebooks_def SQCodec_num_codebooks_def
        SQCodec_total_codebooks_def split: if_splits)
qed

lemma repr_example: "repr_int_list [2, 4, 8, 16, 32] = ''[2, 4, 8, 16, 32]''"
  by code_simp

theorem set_num_codebooks_accepts_witness:
  "DAC_set_num_codebooks example_dac 10 = Inl (AssertionError [])
   \<and> DAC_set_num_codebooks example_dac 4 = Inr (example_dac\<lparr>n_quantizers := 4\<rparr>)
   \<and> WavTokenizer_set_num_codebooks example_wavtokenizer 2 =
       Inl (AssertionError ''WavTokenizer only supports 1 codebook'')
   \<and> HF_set_num_codebooks example_hf 3 =
       Inl (ValueError ''Allowed values for num codebooks: [2, 4, 8, 16, 32]'')
   \<and> HF_set_num_codebooks example_hf 8 = Inr (example_hf\<lparr>hf_num_codebooks := 8\<rparr>)
   \<and> SQCodec_set_num_codebooks example_sqcodec 0 = Inl (AssertionError [])
   \<and> SQCodec_total_codebooks example_sqcodec = 4
   \<and> SQCodec_set_num_codebooks example_sqcodec 7 = Inr (example_sqcodec\<lparr>n_codebook := 7\<rparr>)"
proof -
  have total: "DAC_total_codebooks example_dac = 9"
    by (simp add: DAC_total_codebooks_def example_dac_def)
  have possible: "possible_num_codebooks example_hf = [2, 4, 8, 16, 32]"
    by (simp add: example_hf_def)
  have sq: "SQCodec_total_codebooks example_sqcodec = 4"
    by (simp add: SQCodec_total_codebooks_def example_sqcodec_def SQCodec_default_def
        SQCodec_init_def)
  show ?thesis
    using set_num_codebooks_accepts [of example_dac 10 example_wavtokenizer example_hf example_sqcodec]
      set_num_codebooks_accepts [of example_dac 4 example_wavtokenizer example_hf example_sqcodec]
      set_num_codebooks_accepts [of example_dac 2 example_wavtokenizer example_hf example_sqcodec]
      set_num_codebooks_accepts [of example_dac 3 example_wavtokenizer example_hf example_sqcodec]
      set_num_codebooks_accepts [of example_dac 8 example_wavtokenizer example_hf example_sqcodec]
      set_num_codebooks_accepts [of example_dac 0 example_wavtokenizer example_hf example_sqcodec]
      set_num_codebooks_accepts [of example_dac 7 example_wavtokenizer example_hf example_sqcodec]
    by (simp add: total possible sq repr_example WavTokenizer_total_codebooks_def)
qed

text \<open>The claim C3 as stated fails for SQCodec: 5 codebooks are accepted on an instance
  with 4 in total.\<close>

theorem set_num_codebooks_sqcodec_counterexample:
  "\<not> (5 \<le> SQCodec_total_codebooks example_sqcodec)
   \<and> SQCodec_set_num_codebooks example_sqcodec 5 = Inr (example_sqcodec\<lparr>n_codebook := 5\<rparr>)"
  by (simp add: SQCodec_total_codebooks_def SQCodec_set_num_codebooks_def example_sqcodec_def
      SQCodec_default_def SQCodec_init_def)

section \<open>The cardinality of the ternary backend\<close>

text \<open>
  C8, as the code has it. \<^verbatim>\<open>SQCodec.cardinality\<close> returns the field \<open>dim_codebook\<close>: the
  constructor's argument (by default \<open>19683 = 3 ^ 9\<close>, with the default \<open>emb_dim = 9\<close>).
  \<^verbatim>\<open>set_num_codebooks\<close> leaves it unchanged, and \<^verbatim>\<open>set_cardinality(n)\<close> succeeds exactly when
  \<open>n \<ge> 1\<close> and replaces it by \<open>n\<close>.
\<close>

theorem sqcodec_cardinality_changes:
  "SQCodec_cardinality (SQCodec_init ce cd pj sr dc nc b ed hdim ut) = dc
   \<and> SQCodec_cardinality (SQCodec_default ce cd pj) = 3 ^ emb_dim (SQCodec_default ce cd pj)
   \<and> (\<forall>q'. SQCodec_set_num_codebooks q n = Inr q' \<longrightarrow>
         SQCodec_cardinality q' = SQCodec_cardinality q)
   \<and> SQCodec_set_cardinality q n =
       (if 1 \<le> n then Inr (q\<lparr>dim_codebook := n\<rparr>) else Inl (AssertionError []))
   \<and> (\<forall>q'. SQCodec_set_cardinality q n = Inr q' \<longrightarrow> SQCodec_cardinality q' = n)"
proof (intro conjI)
  show "SQCodec_cardinality (SQCodec_init ce cd pj sr dc nc b ed hdim ut) = dc"
    by (simp add: SQCodec_cardinality_def SQCodec_init_def)
  show "SQCodec_cardinality (SQCodec_default ce cd pj) = 3 ^ emb_dim (SQCodec_default ce cd pj)"
    by (simp add: SQCodec_cardinality_def SQCodec_default_def SQCodec_init_def)
  show "\<forall>q'. SQCodec_set_num_codebooks q n = Inr q' \<longrightarrow>
         SQCodec_cardinality q' = SQCodec_cardinality q"
    by (auto simp: SQCodec_set_num_codebooks_def SQCodec_cardinality_def split: if_splits)
  show "SQCodec_set_cardinality q n =
       (if 1 \<le> n then Inr (q\<lparr>dim_codebook := n\<rparr>) else Inl (AssertionError []))"
    by (simp add: SQCodec_set_cardinality_def)
  show "\<forall>q'. SQCodec_set_cardinality q n = Inr q' \<longrightarrow> SQCodec_cardinality q' = n"
    by (auto simp: SQCodec_set_cardinality_def SQCodec_cardinality_def split: if_splits)
qed

theorem sqcodec_cardinality_changes_witness:
  "SQCodec_cardinality example_sqcodec = 19683
   \<and> SQCodec_set_num_codebooks example_sqcodec 2 = Inr (example_sqcodec\<lparr>n_codebook := 2\<rparr>)
   \<and> SQCodec_cardinality (example_sqcodec\<lparr>n_codebook := 2\<rparr>) = 19683
   \<and> SQCodec_set_cardinality example_sqcodec 0 = Inl (AssertionError [])
   \<and> SQCodec_set_cardinality example_sqcodec 27 = Inr (example_sqcodec\<lparr>dim_codebook := 27\<rparr>)
   \<and> SQCodec_cardinality (example_sqcodec\<lparr>dim_codebook := 27\<rparr>) = 27"
proof -
  have setn: "SQCodec_set_num_codebooks example_sqcodec 2 = Inr (example_sqcodec\<lparr>n_codebook := 2\<rparr>)"
    by (simp add: SQCodec_set_num_codebooks_def)
  have card: "SQCodec_cardinality example_sqcodec = 19683"
    by (simp add: SQCodec_cardinality_def example_sqcodec_def SQCodec_default_def
        SQCodec_init_def)
  show ?thesis
    using sqcodec_cardinality_changes [of Inr Inr Inr 16000 19683 4 2 9 None False example_sqcodec 2]
      sqcodec_cardinality_changes [of Inr Inr Inr 16000 19683 4 2 9 None False example_sqcodec 0]
      sqcodec_cardinality_changes [of Inr Inr Inr 16000 19683 4 2 9 None False example_sqcodec 27]
    by (simp add: setn card)
qed

text \<open>The claim C8 as stated fails: \<^verbatim>\<open>set_cardinality(5)\<close> on a constructed instance changes
  the value \<^verbatim>\<open>cardinality\<close> returns from \<open>3 ^ emb_dim\<close> to 5.\<close>

theorem sqcodec_cardinality_counterexample:
  "SQCodec_set_cardinality example_sqcodec 5 = Inr (example_sqcodec\<lparr>dim_codebook := 5\<rparr>)
   \<and> SQCodec_cardinality example_sqcodec = 3 ^ emb_dim example_sqcodec
   \<and> SQCodec_cardinality (example_sqcodec\<lparr>dim_codebook := 5\<rparr>) \<noteq>
       SQCodec_cardinality example_sqcodec"
  by (simp add: SQCodec_set_cardinality_def SQCodec_cardinality_def example_sqcodec_def
      SQCodec_default_def SQCodec_init_def)

section \<open>What the stereo wrapper reports\<close>

text \<open>
  C6. For a stereo wrapper around a model with \<open>K\<close> active codebooks and frame rate \<open>F\<close>: in
  codebook-axis mode (\<open>per_timestep\<close> false) it reports \<open>num_codebooks = 2 * K\<close> and
  \<open>frame_rate = F\<close>; in time-axis mode (\<open>per_timestep\<close> true) it reports
  \<open>num_codebooks = K\<close> and \<open>frame_rate = 2 * F\<close>.
\<close>

theorem stereo_num_codebooks_and_frame_rate:
  "(\<not> per_timestep self \<longrightarrow>
      Stereo_num_codebooks self = 2 * num_codebooks (model_class self) (model self)
      \<and> Stereo_frame_rate self = frame_rate (model_class self) (model self))
   \<and> (per_timestep self \<longrightarrow>
      Stereo_num_codebooks self = num_codebooks (model_class self) (model self)
      \<and> Stereo_frame_rate self = 2 * frame_rate (model_class self) (model self))"
  by (simp add: Stereo_num_codebooks_def Stereo_frame_rate_def Stereo_num_virtual_steps_def)

theorem stereo_num_codebooks_and_frame_rate_witness:
  "Stereo_init SQCodec_class example_sqcodec False =
     Inr \<lparr>model_class = SQCodec_class, model = example_sqcodec, per_timestep = False\<rparr>
   \<and> Stereo_num_codebooks
       \<lparr>model_class = SQCodec_class, model = example_sqcodec, per_timestep = False\<rparr> = 8
   \<and> Stereo_frame_rate
       \<lparr>model_class = SQCodec_class, model = example_sqcodec, per_timestep = False\<rparr> = 50
   \<and> Stereo_num_codebooks
       \<lparr>model_class = SQCodec_class, model = example_sqcodec, per_timestep = True\<rparr> = 4
   \<and> Stereo_frame_rate
       \<lparr>model_class = SQCodec_class, model = example_sqcodec, per_timestep = True\<rparr> = 100"
proof -
  have k: "num_codebooks SQCodec_class example_sqcodec = 4"
    by (simp add: SQCodec_class_def SQCodec_num_codebooks_def example_sqcodec_def
        SQCodec_default_def SQCodec_init_def)
  have f: "frame_rate SQCodec_class example_sqcodec = 50"
    by (simp add: SQCodec_class_def SQCodec_frame_rate_def)
  have c: "channels SQCodec_class example_sqcodec = 1"
    by (simp add: SQCodec_class_def SQCodec_channels_def)
  show ?thesis
    using stereo_num_codebooks_and_frame_rate
        [of "\<lparr>model_class = SQCodec_class, model = example_sqcodec, per_timestep = False\<rparr>"]
      stereo_num_codebooks_and_frame_rate
        [of "\<lparr>model_class = SQCodec_class, model = example_sqcodec, per_timestep = True\<rparr>"]
    by (simp add: k f c Stereo_init_def)
qed

section \<open>SQCodec.encode_embedding\<close>

lemma load_in_tokens: "load_global module_globals ''in_tokens'' = Inl (NameError ''in_tokens'')"
  by (simp add: load_global_def module_globals_def)

lemma err_sequence_all_fail:
  "err_sequence (map (\<lambda>i. Inl e) xs) = (if xs = [] then Inr [] else Inl e)"
  by (cases xs) simp_all

text \<open>
  C10. For every instance and every code tensor, \<^verbatim>\<open>SQCodec.encode_embedding\<close> raises before
  it returns: with at least one codebook the first iteration of its loop reads the
  undefined name \<^verbatim>\<open>in_tokens\<close> (a \<open>NameError\<close>), and with no iteration \<^verbatim>\<open>torch.stack\<close>
  rejects the empty list. It never produces an embedding tensor.
\<close>

theorem encode_embedding_always_raises:
  "SQCodec_encode_embedding self codes =
     Inl (if 1 \<le> SQCodec_num_codebooks self then NameError ''in_tokens'' else RuntimeError)"
proof -
  have body: "\<And>i f. err_bind (load_global module_globals ''in_tokens'') f
                 = Inl (NameError ''in_tokens'')"
    by (simp add: load_in_tokens err_bind_def)
  show ?thesis
  proof (cases "1 \<le> SQCodec_num_codebooks self")
    case True
    then have "[0..<nat (SQCodec_num_codebooks self)] \<noteq> []" by simp
    then show ?thesis
      unfolding SQCodec_encode_embedding_def Let_def body err_sequence_all_fail
      using True by (simp add: err_bind_def)
  next
    case False
    then have "[0..<nat (SQCodec_num_codebooks self)] = []" by simp
    then show ?thesis
      unfolding SQCodec_encode_embedding_def Let_def
      using False by (simp add: err_bind_def stack_dim0_def)
  qed
qed

theorem encode_embedding_always_raises_witness:
  "SQCodec_encode_embedding example_sqcodec \<lparr>shape3 = (1, 4, 1), elems3 = [[[34], [0], [7], [19682]]]\<rparr>
     = Inl (NameError ''in_tokens'')
   \<and> SQCodec_encode_embedding (example_sqcodec\<lparr>n_codebook := 0\<rparr>)
       \<lparr>shape3 = (1, 0, 1), elems3 = [[]]\<rparr> = Inl RuntimeError"
  using encode_embedding_always_raises
      [of example_sqcodec "\<lparr>shape3 = (1, 4, 1), elems3 = [[[34], [0], [7], [19682]]]\<rparr>"]
    encode_embedding_always_raises
      [of "example_sqcodec\<lparr>n_codebook := 0\<rparr>" "\<lparr>shape3 = (1, 0, 1), elems3 = [[]]\<rparr>"]
  by (simp add: SQCodec_num_codebooks_def example_sqcodec_def SQCodec_default_def SQCodec_init_def)

lemma err_bind_Inr_iff:
  "err_bind m f = Inr y \<longleftrightarrow> (\<exists>v. m = Inr v \<and> f v = Inr y)"
  by (cases m) (simp_all add: err_bind_def)

section \<open>The scale argument of decode\<close>

text \<open>
  C9, as the code has it. The backends whose \<^verbatim>\<open>encode\<close> never returns a scale (DAC, SQCodec,
  WavTokenizer, and EncodecModel when \<open>renormalize\<close> is false) reject every \<^verbatim>\<open>decode\<close> call
  with a present scale: DAC, SQCodec and WavTokenizer by their first assertion, EncodecModel
  by the assertion in \<^verbatim>\<open>postprocess\<close>, once the quantizer and the decoder have run. The other
  direction is not checked: \<^verbatim>\<open>postprocess\<close> with an absent scale returns its input unchanged,
  whatever \<open>renormalize\<close> is. \<^verbatim>\<open>EncodecModel.encode\<close> returns a scale exactly when
  \<open>renormalize\<close> is true.
\<close>

theorem decode_scale_checks:
  "DAC_decode d codes (Some s) = Inl (AssertionError [])
   \<and> SQCodec_decode q codes (Some s) = Inl (AssertionError [])
   \<and> WavTokenizer_decode w codes (Some s) = Inl (AssertionError [])
   \<and> (\<not> renormalize e \<longrightarrow>
        EncodecModel_postprocess e x (Some s) = Inl (AssertionError [])
        \<and> isl (EncodecModel_decode e codes (Some s)))
   \<and> EncodecModel_postprocess e x None = Inr x
   \<and> (\<forall>c sc. DAC_encode d a = Inr (c, sc) \<longrightarrow> sc = None)
   \<and> (\<forall>c sc. SQCodec_encode q a = Inr (c, sc) \<longrightarrow> sc = None)
   \<and> (\<forall>c sc. EncodecModel_encode e a = Inr (c, sc) \<longrightarrow> (sc = None) = (\<not> renormalize e))"
proof (intro conjI)
  show "DAC_decode d codes (Some s) = Inl (AssertionError [])"
    by (simp add: DAC_decode_def)
  show "SQCodec_decode q codes (Some s) = Inl (AssertionError [])"
    by (simp add: SQCodec_decode_def)
  show "WavTokenizer_decode w codes (Some s) = Inl (AssertionError [])"
    by (simp add: WavTokenizer_decode_def)
  show "\<not> renormalize e \<longrightarrow>
        EncodecModel_postprocess e x (Some s) = Inl (AssertionError [])
        \<and> isl (EncodecModel_decode e codes (Some s))"
  proof (intro impI conjI)
    assume nr: "\<not> renormalize e"
    then show post: "EncodecModel_postprocess e x (Some s) = Inl (AssertionError [])" for x
      by (simp add: EncodecModel_postprocess_def)
    show "isl (EncodecModel_decode e codes (Some s))"
    proof (cases "EncodecModel_decode_latent e codes")
      case (Inl err)
      then show ?thesis by (simp add: EncodecModel_decode_def err_bind_def)
    next
      case (Inr emb)
      then show ?thesis
        by (cases "decoder e emb") (simp_all add: EncodecModel_decode_def err_bind_def post)
    qed
  qed
  show "EncodecModel_postprocess e x None = Inr x"
    by (simp add: EncodecModel_postprocess_def)
  show "\<forall>c sc. DAC_encode d a = Inr (c, sc) \<longrightarrow> sc = None"
    by (auto simp: DAC_encode_def split: sum.splits)
  show "\<forall>c sc. SQCodec_encode q a = Inr (c, sc) \<longrightarrow> sc = None"
    by (auto simp: SQCodec_encode_def err_bind_Inr_iff split: if_splits)
  show "\<forall>c sc. EncodecModel_encode e a = Inr (c, sc) \<longrightarrow> (sc = None) = (\<not> renormalize e)"
    by (auto simp: EncodecModel_encode_def EncodecModel_preprocess_def err_bind_Inr_iff
        split: if_splits prod.splits)
qed

text \<open>The claim C9 as stated fails: an EncodecModel with \<open>renormalize\<close> true returns a scale
  from \<^verbatim>\<open>encode\<close>, and its \<^verbatim>\<open>decode\<close> accepts the codes with no scale.\<close>

theorem decode_absent_scale_counterexample:
  "renormalize example_encodec
   \<and> EncodecModel_encode example_encodec example_frame = Inr (example_codes, Some example_scale)
   \<and> EncodecModel_decode example_encodec example_codes None = Inr example_frame"
  by (simp add: example_encodec_def example_frame_def example_codes_def example_scale_def
      EncodecModel_encode_def EncodecModel_preprocess_def EncodecModel_decode_def
      EncodecModel_decode_latent_def EncodecModel_postprocess_def err_bind_def
      map_tensor3_def trunc_toward_zero_def)

theorem decode_scale_checks_witness:
  "DAC_decode example_dac example_codes (Some example_scale) = Inl (AssertionError [])
   \<and> SQCodec_decode example_sqcodec example_codes (Some example_scale) = Inl (AssertionError [])
   \<and> WavTokenizer_decode example_wavtokenizer example_codes (Some example_scale)
       = Inl (AssertionError [])
   \<and> EncodecModel_postprocess (example_encodec\<lparr>renormalize := False\<rparr>) example_frame
       (Some example_scale) = Inl (AssertionError [])
   \<and> isl (EncodecModel_decode (example_encodec\<lparr>renormalize := False\<rparr>) example_codes
       (Some example_scale))
   \<and> EncodecModel_postprocess example_encodec example_frame None = Inr example_frame
   \<and> EncodecModel_encode (example_encodec\<lparr>renormalize := False\<rparr>) example_frame
       = Inr (example_codes, None)"
proof -
  have nr: "\<not> renormalize (example_encodec\<lparr>renormalize := False\<rparr>)" by simp
  have enc: "EncodecModel_encode (example_encodec\<lparr>renormalize := False\<rparr>) example_frame
       = Inr (example_codes, None)"
    by (simp add: example_encodec_def example_frame_def example_codes_def
      EncodecModel_encode_def EncodecModel_preprocess_def err_bind_def
      map_tensor3_def trunc_toward_zero_def)
  show ?thesis
    using nr enc
      decode_scale_checks [of example_dac example_codes example_scale example_sqcodec
        example_wavtokenizer "example_encodec\<lparr>renormalize := False\<rparr>" example_frame example_frame]
      decode_scale_checks [of example_dac example_codes example_scale example_sqcodec
        example_wavtokenizer example_encodec example_frame example_frame]
    by simp
qed

section \<open>Interleaving and de-interleaving of stereo codes\<close>

lemma wf3_lengths:
  assumes "wf3 c" and "shape3 c = (B, K, T)"
  shows "length (elems3 c) = B"
    and "b < B \<Longrightarrow> length (elems3 c ! b) = K"
    and "b < B \<Longrightarrow> k < K \<Longrightarrow> length (elems3 c ! b ! k) = T"
  using assms by (auto simp: wf3_def list_all_length)

lemma nested_map_eqI:
  assumes "length e = B"
    and "\<And>b. b < B \<Longrightarrow> length (e ! b) = K"
    and "\<And>b k. b < B \<Longrightarrow> k < K \<Longrightarrow> length (e ! b ! k) = T"
    and "\<And>b k t. b < B \<Longrightarrow> k < K \<Longrightarrow> t < T \<Longrightarrow> f b k t = e ! b ! k ! t"
  shows "map (\<lambda>b. map (\<lambda>k. map (\<lambda>t. f b k t) [0..<T]) [0..<K]) [0..<B] = e"
proof (rule map_upt_eqI)
  show "length e = B - 0" using assms(1) by simp
next
  fix b assume "b < length e"
  then have b: "b < B" using assms(1) by simp
  have "map (\<lambda>k. map (\<lambda>t. f b k t) [0..<T]) [0..<K] = e ! b"
  proof (rule map_upt_eqI)
    show "length (e ! b) = K - 0" using assms(2) b by simp
  next
    fix k assume "k < length (e ! b)"
    then have k: "k < K" using assms(2) b by simp
    have "map (\<lambda>t. f b k t) [0..<T] = e ! b ! k"
    proof (rule map_upt_eqI)
      show "length (e ! b ! k) = T - 0" using assms(3) b k by simp
    next
      fix t assume "t < length (e ! b ! k)"
      then have "t < T" using assms(3) b k by simp
      then show "e ! b ! k ! t = f b k (0 + t)" using assms(4) b k by simp
    qed
    then show "e ! b ! k = map (\<lambda>t. f b (0 + k) t) [0..<T]" by simp
  qed
  then show "e ! b = map (\<lambda>k. map (\<lambda>t. f (0 + b) k t) [0..<T]) [0..<K]" by simp
qed

lemma nested_map_wf3:
  "wf3 \<lparr>shape3 = (B, K, T),
        elems3 = map (\<lambda>b. map (\<lambda>k. map (\<lambda>t. f b k t) [0..<T]) [0..<K]) [0..<B]\<rparr>"
  by (simp add: wf3_def list_all_iff)

lemma stack_two_codes:
  assumes "shape3 c0 = (B, K, T)" and "shape3 c1 = (B, K, T)"
  shows "stack_dim0 [c0, c1] = Inr \<lparr>shape4 = (2, B, K, T), elems4 = [elems3 c0, elems3 c1]\<rparr>"
  using assms by (simp add: stack_dim0_def)

lemma even_index:
  "(k * 2) mod 2 = (0::nat)" "(k * 2) div 2 = (k::nat)"
  "Suc (k * 2) mod 2 = Suc 0" "Suc (k * 2) div 2 = (k::nat)"
  "(2 * k) mod 2 = (0::nat)" "(2 * k) div 2 = (k::nat)"
  "Suc (2 * k) mod 2 = Suc 0" "Suc (2 * k) div 2 = (k::nat)"
  by presburger+

text \<open>Codebook-axis mode.\<close>

lemma codebook_axis_roundtrip:
  assumes wf: "wf3 c0" "wf3 c1" and sh: "shape3 c0 = (B, K, T)" "shape3 c1 = (B, K, T)"
  defines "x \<equiv> \<lparr>shape3 = (B, K * 2, T),
      elems3 = map (\<lambda>b. map (\<lambda>j. map (\<lambda>t. [elems3 c0, elems3 c1] ! (j mod 2) ! b ! (j div 2) ! t)
                                    [0..<T]) [0..<K * 2]) [0..<B]\<rparr>"
  shows "rearrange_cbkt_to_b_kc_t \<lparr>shape4 = (2, B, K, T), elems4 = [elems3 c0, elems3 c1]\<rparr> = Inr x"
    and "rearrange_b_kc_t_to_cbkt x = Inr \<lparr>shape4 = (2, B, K, T), elems4 = [elems3 c0, elems3 c1]\<rparr>"
    and "wf3 x"
    and "b < B \<Longrightarrow> k < K \<Longrightarrow> elems3 x ! b ! (2 * k) = elems3 c0 ! b ! k"
    and "b < B \<Longrightarrow> k < K \<Longrightarrow> elems3 x ! b ! (2 * k + 1) = elems3 c1 ! b ! k"
proof -
  show "rearrange_cbkt_to_b_kc_t \<lparr>shape4 = (2, B, K, T), elems4 = [elems3 c0, elems3 c1]\<rparr> = Inr x"
    by (simp add: rearrange_cbkt_to_b_kc_t_def x_def)
  show "wf3 x" unfolding x_def by (rule nested_map_wf3)
  have nth_x: "elems3 x ! b ! j ! t = [elems3 c0, elems3 c1] ! (j mod 2) ! b ! (j div 2) ! t"
    if "b < B" "j < K * 2" "t < T" for b j t
    using that by (simp add: x_def)
  have left: "map (\<lambda>b. map (\<lambda>k. map (\<lambda>t. elems3 x ! b ! (k * 2 + 0) ! t) [0..<T]) [0..<K]) [0..<B]
      = elems3 c0"
  proof (rule nested_map_eqI)
    fix b k t assume "b < B" "k < K" "t < T"
    moreover from \<open>k < K\<close> have "k * 2 < K * 2" by simp
    ultimately show "elems3 x ! b ! (k * 2 + 0) ! t = elems3 c0 ! b ! k ! t"
      by (simp add: nth_x)
  qed (use wf sh in \<open>simp_all add: wf3_lengths\<close>)
  have right: "map (\<lambda>b. map (\<lambda>k. map (\<lambda>t. elems3 x ! b ! (k * 2 + 1) ! t) [0..<T]) [0..<K]) [0..<B]
      = elems3 c1"
  proof (rule nested_map_eqI)
    fix b k t assume "b < B" "k < K" "t < T"
    moreover from \<open>k < K\<close> have "k * 2 + 1 < K * 2" by simp
    ultimately show "elems3 x ! b ! (k * 2 + 1) ! t = elems3 c1 ! b ! k ! t"
      by (simp add: nth_x even_index)
  qed (use wf sh in \<open>simp_all add: wf3_lengths\<close>)
  have two: "[0..<2] = [0, 1]" by (simp add: upt_rec)
  have shx: "shape3 x = (B, K * 2, T)" by (simp add: x_def)
  show "rearrange_b_kc_t_to_cbkt x = Inr \<lparr>shape4 = (2, B, K, T), elems4 = [elems3 c0, elems3 c1]\<rparr>"
    unfolding rearrange_b_kc_t_to_cbkt_def shx two using left right by simp
  show "elems3 x ! b ! (2 * k) = elems3 c0 ! b ! k" if "b < B" "k < K"
  proof (rule nth_equalityI)
    from that show "length (elems3 x ! b ! (2 * k)) = length (elems3 c0 ! b ! k)"
      using wf sh by (simp add: x_def wf3_lengths)
  next
    fix t assume "t < length (elems3 x ! b ! (2 * k))"
    with that have "t < T" by (simp add: x_def)
    moreover from that have "2 * k < K * 2" by simp
    ultimately show "elems3 x ! b ! (2 * k) ! t = elems3 c0 ! b ! k ! t"
      using that nth_x [of b "2 * k" t] by (simp add: even_index)
  qed
  show "elems3 x ! b ! (2 * k + 1) = elems3 c1 ! b ! k" if "b < B" "k < K"
  proof (rule nth_equalityI)
    from that show "length (elems3 x ! b ! (2 * k + 1)) = length (elems3 c1 ! b ! k)"
      using wf sh by (simp add: x_def wf3_lengths)
  next
    fix t assume "t < length (elems3 x ! b ! (2 * k + 1))"
    with that have "t < T" by (simp add: x_def)
    moreover from that have "2 * k + 1 < K * 2" by simp
    ultimately show "elems3 x ! b ! (2 * k + 1) ! t = elems3 c1 ! b ! k ! t"
      using that nth_x [of b "2 * k + 1" t] by (simp add: even_index)
  qed
qed

text \<open>Time-axis mode.\<close>

lemma time_axis_roundtrip:
  assumes wf: "wf3 c0" "wf3 c1" and sh: "shape3 c0 = (B, K, T)" "shape3 c1 = (B, K, T)"
  defines "x \<equiv> \<lparr>shape3 = (B, K, T * 2),
      elems3 = map (\<lambda>b. map (\<lambda>k. map (\<lambda>j. [elems3 c0, elems3 c1] ! (j mod 2) ! b ! k ! (j div 2))
                                    [0..<T * 2]) [0..<K]) [0..<B]\<rparr>"
  shows "rearrange_cbkt_to_b_k_tc \<lparr>shape4 = (2, B, K, T), elems4 = [elems3 c0, elems3 c1]\<rparr> = Inr x"
    and "rearrange_b_k_tc_to_cbkt x = Inr \<lparr>shape4 = (2, B, K, T), elems4 = [elems3 c0, elems3 c1]\<rparr>"
    and "wf3 x"
    and "b < B \<Longrightarrow> k < K \<Longrightarrow> t < T \<Longrightarrow> elems3 x ! b ! k ! (2 * t) = elems3 c0 ! b ! k ! t"
    and "b < B \<Longrightarrow> k < K \<Longrightarrow> t < T \<Longrightarrow> elems3 x ! b ! k ! (2 * t + 1) = elems3 c1 ! b ! k ! t"
proof -
  show "rearrange_cbkt_to_b_k_tc \<lparr>shape4 = (2, B, K, T), elems4 = [elems3 c0, elems3 c1]\<rparr> = Inr x"
    by (simp add: rearrange_cbkt_to_b_k_tc_def x_def)
  show "wf3 x" unfolding x_def by (rule nested_map_wf3)
  have nth_x: "elems3 x ! b ! k ! j = [elems3 c0, elems3 c1] ! (j mod 2) ! b ! k ! (j div 2)"
    if "b < B" "k < K" "j < T * 2" for b k j
    using that by (simp add: x_def)
  have left: "map (\<lambda>b. map (\<lambda>k. map (\<lambda>t. elems3 x ! b ! k ! (t * 2 + 0)) [0..<T]) [0..<K]) [0..<B]
      = elems3 c0"
  proof (rule nested_map_eqI)
    fix b k t assume "b < B" "k < K" "t < T"
    moreover from \<open>t < T\<close> have "t * 2 < T * 2" by simp
    ultimately show "elems3 x ! b ! k ! (t * 2 + 0) = elems3 c0 ! b ! k ! t"
      by (simp add: nth_x)
  qed (use wf sh in \<open>simp_all add: wf3_lengths\<close>)
  have right: "map (\<lambda>b. map (\<lambda>k. map (\<lambda>t. elems3 x ! b ! k ! (t * 2 + 1)) [0..<T]) [0..<K]) [0..<B]
      = elems3 c1"
  proof (rule nested_map_eqI)
    fix b k t assume "b < B" "k < K" "t < T"
    moreover from \<open>t < T\<close> have "t * 2 + 1 < T * 2" by simp
    ultimately show "elems3 x ! b ! k ! (t * 2 + 1) = elems3 c1 ! b ! k ! t"
      by (simp add: nth_x even_index)
  qed (use wf sh in \<open>simp_all add: wf3_lengths\<close>)
  have two: "[0..<2] = [0, 1]" by (simp add: upt_rec)
  have shx: "shape3 x = (B, K, T * 2)" by (simp add: x_def)
  show "rearrange_b_k_tc_to_cbkt x = Inr \<lparr>shape4 = (2, B, K, T), elems4 = [elems3 c0, elems3 c1]\<rparr>"
    unfolding rearrange_b_k_tc_to_cbkt_def shx two using left right by simp
  show "elems3 x ! b ! k ! (2 * t) = elems3 c0 ! b ! k ! t" if "b < B" "k < K" "t < T"
  proof -
    from that have "2 * t < T * 2" by simp
    with that show ?thesis using nth_x [of b k "2 * t"] by (simp add: even_index)
  qed
  show "elems3 x ! b ! k ! (2 * t + 1) = elems3 c1 ! b ! k ! t" if "b < B" "k < K" "t < T"
  proof -
    from that have "2 * t + 1 < T * 2" by simp
    with that show ?thesis using nth_x [of b k "2 * t + 1"] by (simp add: even_index)
  qed
qed

lemma index_stacked_pair:
  "index_axis0 0 \<lparr>shape4 = (2, B, K, T), elems4 = [elems3 c0, elems3 c1]\<rparr>
     = Inr \<lparr>shape3 = (B, K, T), elems3 = elems3 c0\<rparr>"
  "index_axis0 (Suc 0) \<lparr>shape4 = (2, B, K, T), elems4 = [elems3 c0, elems3 c1]\<rparr>
     = Inr \<lparr>shape3 = (B, K, T), elems3 = elems3 c1\<rparr>"
  by (simp_all add: index_axis0_def)

text \<open>
  C2. Let the wrapped model encode the left and the right channel of a stereo frame to
  the code tensors \<open>c0\<close> and \<open>c1\<close>, both well formed and of shape \<open>[B, K, T]\<close>. Then
  \<^verbatim>\<open>encode\<close> of the wrapper succeeds with a code tensor of shape \<open>[B, 2K, T]\<close> in codebook-axis
  mode, where codebook \<open>2i\<close> is left codebook \<open>i\<close> and codebook \<open>2i + 1\<close> is right codebook
  \<open>i\<close>, and of shape \<open>[B, K, 2T]\<close> in time-axis mode, where the even timesteps are the left and
  the odd timesteps the right ones; and \<^verbatim>\<open>get_left_right_codes\<close> of that tensor returns
  \<open>c0\<close> and \<open>c1\<close> exactly.
\<close>

theorem stereo_interleave_roundtrip:
  assumes enc0: "err_bind (mono_channel 0 x) (encode (model_class self) (model self)) = Inr (c0, s0)"
    and enc1: "err_bind (mono_channel 1 x) (encode (model_class self) (model self)) = Inr (c1, s1)"
    and stereo: "fst (snd (shape3 x)) = 2"
    and wf: "wf3 c0" "wf3 c1"
    and sh: "shape3 c0 = (B, K, T)" "shape3 c1 = (B, K, T)"
    and sc: "Stereo_stack_scales s0 s1 = Inr scales"
  shows "\<exists>codes. Stereo_encode self x = Inr (codes, scales)
           \<and> wf3 codes
           \<and> shape3 codes = (if per_timestep self then (B, K, 2 * T) else (B, 2 * K, T))
           \<and> Stereo_get_left_right_codes self codes = Inr (c0, c1)
           \<and> (\<not> per_timestep self \<longrightarrow> (\<forall>b<B. \<forall>i<K.
                  elems3 codes ! b ! (2 * i) = elems3 c0 ! b ! i
                  \<and> elems3 codes ! b ! (2 * i + 1) = elems3 c1 ! b ! i))
           \<and> (per_timestep self \<longrightarrow> (\<forall>b<B. \<forall>k<K. \<forall>t<T.
                  elems3 codes ! b ! k ! (2 * t) = elems3 c0 ! b ! k ! t
                  \<and> elems3 codes ! b ! k ! (2 * t + 1) = elems3 c1 ! b ! k ! t))"
proof -
  obtain Bx Tx where shx: "shape3 x = (Bx, 2, Tx)"
    using stereo by (cases "shape3 x") auto
  from enc0 obtain x0 where x0: "mono_channel 0 x = Inr x0"
    and e0: "encode (model_class self) (model self) x0 = Inr (c0, s0)"
    by (cases "mono_channel 0 x") (simp_all add: err_bind_def)
  from enc1 obtain x1 where x1: "mono_channel 1 x = Inr x1"
    and e1: "encode (model_class self) (model self) x1 = Inr (c1, s1)"
    by (cases "mono_channel 1 x") (simp_all add: err_bind_def)
  have c0: "\<lparr>shape3 = (B, K, T), elems3 = elems3 c0\<rparr> = c0"
    and c1: "\<lparr>shape3 = (B, K, T), elems3 = elems3 c1\<rparr> = c1"
    using sh by simp_all
  from x1 have x1': "mono_channel (Suc 0) x = Inr x1" by simp
  note stack = stack_two_codes [OF sh]
  show ?thesis
  proof (cases "per_timestep self")
    case True
    note rt = time_axis_roundtrip [OF wf sh]
    let ?codes = "\<lparr>shape3 = (B, K, T * 2),
      elems3 = map (\<lambda>b. map (\<lambda>k. map (\<lambda>j. [elems3 c0, elems3 c1] ! (j mod 2) ! b ! k ! (j div 2))
                                    [0..<T * 2]) [0..<K]) [0..<B]\<rparr>"
    have "Stereo_encode self x = Inr (?codes, scales)"
      unfolding Stereo_encode_def shx
      by (simp add: Stereo_channels_def x0 e0 x1' e1 stack sc rt(1) True err_bind_def)
    moreover have "Stereo_get_left_right_codes self ?codes = Inr (c0, c1)"
      unfolding Stereo_get_left_right_codes_def
      by (simp add: True rt(2) index_stacked_pair c0 c1 err_bind_def)
    moreover have "shape3 ?codes = (B, K, 2 * T)" by simp
    ultimately show ?thesis using True rt(3) rt(4) rt(5) by auto
  next
    case False
    note rt = codebook_axis_roundtrip [OF wf sh]
    let ?codes = "\<lparr>shape3 = (B, K * 2, T),
      elems3 = map (\<lambda>b. map (\<lambda>j. map (\<lambda>t. [elems3 c0, elems3 c1] ! (j mod 2) ! b ! (j div 2) ! t)
                                    [0..<T]) [0..<K * 2]) [0..<B]\<rparr>"
    have "Stereo_encode self x = Inr (?codes, scales)"
      unfolding Stereo_encode_def shx
      by (simp add: Stereo_channels_def x0 e0 x1' e1 stack sc rt(1) False err_bind_def)
    moreover have "Stereo_get_left_right_codes self ?codes = Inr (c0, c1)"
      unfolding Stereo_get_left_right_codes_def
      by (simp add: False rt(2) index_stacked_pair c0 c1 err_bind_def)
    moreover have "shape3 ?codes = (B, 2 * K, T)" by simp
    ultimately show ?thesis using False rt(3) rt(4) rt(5) by auto
  qed
qed

theorem stereo_interleave_roundtrip_witness:
  "(\<exists>codes. Stereo_encode (example_stereo False) example_stereo_frame = Inr (codes, None)
      \<and> shape3 codes = (1, 2, 2)
      \<and> Stereo_get_left_right_codes (example_stereo False) codes
          = Inr (example_left_codes, example_right_codes))
   \<and> (\<exists>codes. Stereo_encode (example_stereo True) example_stereo_frame = Inr (codes, None)
      \<and> shape3 codes = (1, 1, 4)
      \<and> Stereo_get_left_right_codes (example_stereo True) codes
          = Inr (example_left_codes, example_right_codes))"
proof -
  have enc0: "err_bind (mono_channel 0 example_stereo_frame)
      (encode (model_class (example_stereo p)) (model (example_stereo p)))
      = Inr (example_left_codes, None)" for p
    unfolding example_stereo_def by simp code_simp
  have enc1: "err_bind (mono_channel 1 example_stereo_frame)
      (encode (model_class (example_stereo p)) (model (example_stereo p)))
      = Inr (example_right_codes, None)" for p
    unfolding example_stereo_def by simp code_simp
  have stereo: "fst (snd (shape3 example_stereo_frame)) = 2"
    by (simp add: example_stereo_frame_def)
  have wf: "wf3 example_left_codes" "wf3 example_right_codes" by code_simp+
  have sh: "shape3 example_left_codes = (1, 1, 2)" "shape3 example_right_codes = (1, 1, 2)"
    by (simp_all add: example_left_codes_def example_right_codes_def)
  have sc: "Stereo_stack_scales None None = Inr None"
    by (simp add: Stereo_stack_scales_def)
  have mode: "\<not> per_timestep (example_stereo False)" "per_timestep (example_stereo True)"
    by (simp_all add: example_stereo_def)
  show ?thesis
    using stereo_interleave_roundtrip [OF enc0 [of False] enc1 [of False] stereo wf sh sc]
      stereo_interleave_roundtrip [OF enc0 [of True] enc1 [of True] stereo wf sh sc] mode
    by auto
qed

lemma get_left_right_codes_succeeds:
  assumes "shape3 codes = (B, K, T)"
    and "T mod Stereo_num_virtual_steps self = 0"
    and "int K = Stereo_num_codebooks self"
  shows "\<exists>c0 c1. Stereo_get_left_right_codes self codes = Inr (c0, c1)"
proof (cases "per_timestep self")
  case True
  with assms(2) have "T mod 2 = 0" by (simp add: Stereo_num_virtual_steps_def)
  with True assms(1) show ?thesis
    by (simp add: Stereo_get_left_right_codes_def rearrange_b_k_tc_to_cbkt_def
        index_axis0_def err_bind_def)
next
  case False
  with assms(3) have "int K = num_codebooks (model_class self) (model self) * 2"
    by (simp add: Stereo_num_codebooks_def)
  then have "K mod 2 = 0" by presburger
  with False assms(1) show ?thesis
    by (simp add: Stereo_get_left_right_codes_def rearrange_b_kc_t_to_cbkt_def
        index_axis0_def err_bind_def)
qed

section \<open>The shape checks of the stereo wrapper's decode\<close>

text \<open>
  C7. \<^verbatim>\<open>decode\<close> of the stereo wrapper fails with the assertion error on the shape whenever
  the time axis of the codes is not a multiple of the number of virtual steps, or the
  codebook axis differs from the reported number of codebooks. Otherwise it proceeds: the
  codes de-interleave without error, and the result is what splitting the scale, decoding
  each channel with the wrapped model and concatenating the two frames gives.
\<close>

theorem stereo_decode_shape_validation:
  assumes sh: "shape3 codes = (B, K, T)"
  shows "(T mod Stereo_num_virtual_steps self \<noteq> 0 \<longrightarrow>
            Stereo_decode self codes scale =
              Inl (AssertionError ''Provided codes' number of timesteps does not match''))
       \<and> (T mod Stereo_num_virtual_steps self = 0 \<and> int K \<noteq> Stereo_num_codebooks self \<longrightarrow>
            Stereo_decode self codes scale =
              Inl (AssertionError ''Provided codes' number of codebooks does not match''))
       \<and> (T mod Stereo_num_virtual_steps self = 0 \<and> int K = Stereo_num_codebooks self \<longrightarrow>
            (\<exists>c0 c1. Stereo_get_left_right_codes self codes = Inr (c0, c1)
               \<and> Stereo_decode self codes scale =
                   err_bind (Stereo_split_scale B scale) (\<lambda>(scale_c0, scale_c1).
                   err_bind (decode (model_class self) (model self) c0 scale_c0) (\<lambda>audio_c0.
                   err_bind (decode (model_class self) (model self) c1 scale_c1) (\<lambda>audio_c1.
                   cat_dim1 [audio_c0, audio_c1])))))"
proof (intro conjI impI)
  assume "T mod Stereo_num_virtual_steps self \<noteq> 0"
  then show "Stereo_decode self codes scale =
      Inl (AssertionError ''Provided codes' number of timesteps does not match'')"
    by (simp add: Stereo_decode_def sh)
next
  assume "T mod Stereo_num_virtual_steps self = 0 \<and> int K \<noteq> Stereo_num_codebooks self"
  then show "Stereo_decode self codes scale =
      Inl (AssertionError ''Provided codes' number of codebooks does not match'')"
    by (simp add: Stereo_decode_def sh)
next
  assume ok: "T mod Stereo_num_virtual_steps self = 0 \<and> int K = Stereo_num_codebooks self"
  then have steps: "T mod Stereo_num_virtual_steps self = 0"
    and books: "int K = Stereo_num_codebooks self" by simp_all
  from get_left_right_codes_succeeds [OF sh steps books]
  obtain c0 c1 where lr: "Stereo_get_left_right_codes self codes = Inr (c0, c1)"
    by blast
  have "Stereo_decode self codes scale =
      err_bind (Stereo_split_scale B scale) (\<lambda>(scale_c0, scale_c1).
      err_bind (decode (model_class self) (model self) c0 scale_c0) (\<lambda>audio_c0.
      err_bind (decode (model_class self) (model self) c1 scale_c1) (\<lambda>audio_c1.
      cat_dim1 [audio_c0, audio_c1])))"
    using ok by (cases "Stereo_split_scale B scale")
      (auto simp: Stereo_decode_def sh lr err_bind_def)
  with lr show "\<exists>c0 c1. Stereo_get_left_right_codes self codes = Inr (c0, c1)
       \<and> Stereo_decode self codes scale =
           err_bind (Stereo_split_scale B scale) (\<lambda>(scale_c0, scale_c1).
           err_bind (decode (model_class self) (model self) c0 scale_c0) (\<lambda>audio_c0.
           err_bind (decode (model_class self) (model self) c1 scale_c1) (\<lambda>audio_c1.
           cat_dim1 [audio_c0, audio_c1])))"
    by blast
qed

theorem stereo_decode_shape_validation_witness:
  "Stereo_decode (example_stereo True) example_odd_codes None =
     Inl (AssertionError ''Provided codes' number of timesteps does not match'')
   \<and> Stereo_decode (example_stereo False) example_odd_codes None =
     Inl (AssertionError ''Provided codes' number of codebooks does not match'')
   \<and> (\<exists>c0 c1. Stereo_get_left_right_codes example_small_stereo example_interleaved_codes
                 = Inr (c0, c1)
        \<and> Stereo_decode example_small_stereo example_interleaved_codes None =
            err_bind (Stereo_split_scale 1 None) (\<lambda>(scale_c0, scale_c1).
            err_bind (decode (model_class example_small_stereo) (model example_small_stereo)
                        c0 scale_c0) (\<lambda>audio_c0.
            err_bind (decode (model_class example_small_stereo) (model example_small_stereo)
                        c1 scale_c1) (\<lambda>audio_c1.
            cat_dim1 [audio_c0, audio_c1]))))
   \<and> Stereo_decode example_small_stereo example_interleaved_codes None =
       Inr \<lparr>shape3 = (1, 4, 1), elems3 = [[[0], [1], [1], [0]]]\<rparr>"
proof -
  have sh: "shape3 example_odd_codes = (1, 4, 3)" "shape3 example_interleaved_codes = (1, 1, 2)"
    by (simp_all add: example_odd_codes_def example_interleaved_codes_def)
  have k: "num_codebooks SQCodec_class example_sqcodec = 4"
    "num_codebooks SQCodec_class (example_sqcodec\<lparr>n_codebook := 1, emb_dim := 2\<rparr>) = 1"
    by (simp_all add: SQCodec_class_def SQCodec_num_codebooks_def example_sqcodec_def
        SQCodec_default_def SQCodec_init_def)
  have facts:
    "Stereo_num_virtual_steps (example_stereo True) = 2"
    "Stereo_num_virtual_steps (example_stereo False) = 1"
    "Stereo_num_codebooks (example_stereo False) = 8"
    "Stereo_num_virtual_steps example_small_stereo = 2"
    "Stereo_num_codebooks example_small_stereo = 1"
    by (simp_all add: Stereo_num_virtual_steps_def Stereo_num_codebooks_def example_stereo_def
        example_small_stereo_def k)
  have run: "Stereo_decode example_small_stereo example_interleaved_codes None =
       Inr \<lparr>shape3 = (1, 4, 1), elems3 = [[[0], [1], [1], [0]]]\<rparr>"
    by code_simp
  show ?thesis
    using stereo_decode_shape_validation [OF sh(1), of "example_stereo True" None]
      stereo_decode_shape_validation [OF sh(1), of "example_stereo False" None]
      stereo_decode_shape_validation [OF sh(2), of example_small_stereo None]
    by (simp add: facts run)
qed

section \<open>The scale factors of the stereo wrapper\<close>

text \<open>
  C4, as the code has it. When both per-channel scales are present and of one shape
  \<open>[B, R]\<close>, \<^verbatim>\<open>encode\<close> stacks them along a new axis at position 1: the result has shape
  \<open>[B, 2, R]\<close>, and its entry \<open>b\<close> holds the left and then the right scale of batch item \<open>b\<close>.
  Scales of different shapes cannot be stacked, and when either scale is absent the result
  is \<open>None\<close>. \<^verbatim>\<open>decode\<close> rejects, by assertion, a present scale whose first two axes are not
  \<open>B\<close> and 2.
\<close>

theorem stereo_scales_stacked_on_axis_1:
  "(shape2 s0 = (B, R) \<and> shape2 s1 = (B, R) \<longrightarrow>
      (\<exists>S. Stereo_stack_scales (Some s0) (Some s1) = Inr (Some S)
           \<and> shape3 S = (B, 2, R)
           \<and> (\<forall>b<B. elems3 S ! b = [elems2 s0 ! b, elems2 s1 ! b])))
   \<and> (shape2 s0 \<noteq> shape2 s1 \<longrightarrow> Stereo_stack_scales (Some s0) (Some s1) = Inl RuntimeError)
   \<and> Stereo_stack_scales None s1' = Inr None
   \<and> Stereo_stack_scales s0' None = Inr None
   \<and> (\<forall>S0 S1 R'. shape3 S' = (S0, S1, R') \<and> \<not> (S0 = B' \<and> S1 = 2) \<longrightarrow>
         (\<exists>msg. Stereo_split_scale B' (Some S') = Inl (AssertionError msg)))"
proof (intro conjI)
  show "shape2 s0 = (B, R) \<and> shape2 s1 = (B, R) \<longrightarrow>
      (\<exists>S. Stereo_stack_scales (Some s0) (Some s1) = Inr (Some S)
           \<and> shape3 S = (B, 2, R)
           \<and> (\<forall>b<B. elems3 S ! b = [elems2 s0 ! b, elems2 s1 ! b]))"
    by (simp add: Stereo_stack_scales_def stack_dim1_def err_bind_def)
  show "shape2 s0 \<noteq> shape2 s1 \<longrightarrow> Stereo_stack_scales (Some s0) (Some s1) = Inl RuntimeError"
    by (cases "shape2 s0") (simp add: Stereo_stack_scales_def stack_dim1_def err_bind_def)
  show "Stereo_stack_scales None s1' = Inr None"
    by (simp add: Stereo_stack_scales_def)
  show "Stereo_stack_scales s0' None = Inr None"
    by (cases s0') (simp_all add: Stereo_stack_scales_def)
  show "\<forall>S0 S1 R'. shape3 S' = (S0, S1, R') \<and> \<not> (S0 = B' \<and> S1 = 2) \<longrightarrow>
         (\<exists>msg. Stereo_split_scale B' (Some S') = Inl (AssertionError msg))"
    by (auto simp: Stereo_split_scale_def)
qed

theorem stereo_scales_stacked_on_axis_1_witness:
  "(\<exists>S. Stereo_stack_scales (Some example_scale_left) (Some example_scale_right) = Inr (Some S)
        \<and> shape3 S = (3, 2, 1)
        \<and> elems3 S ! 0 = [[1], [4]] \<and> elems3 S ! 1 = [[2], [5]] \<and> elems3 S ! 2 = [[3], [6]])
   \<and> (\<exists>msg. Stereo_split_scale 2 (Some example_stacked_scale) = Inl (AssertionError msg))"
proof -
  have sh: "shape2 example_scale_left = (3, 1) \<and> shape2 example_scale_right = (3, 1)"
    by (simp add: example_scale_left_def example_scale_right_def)
  have sh3: "shape3 example_stacked_scale = (3, 2, 1) \<and> \<not> (3 = (2::nat) \<and> 2 = (2::nat))"
    by (simp add: example_stacked_scale_def)
  have el: "elems2 example_scale_left = [[1], [2], [3]]" "elems2 example_scale_right = [[4], [5], [6]]"
    by (simp_all add: example_scale_left_def example_scale_right_def)
  from stereo_scales_stacked_on_axis_1
      [of example_scale_left 3 1 example_scale_right None None example_stacked_scale 2]
  have a: "\<exists>S. Stereo_stack_scales (Some example_scale_left) (Some example_scale_right) = Inr (Some S)
           \<and> shape3 S = (3, 2, 1)
           \<and> (\<forall>b<3. elems3 S ! b = [elems2 example_scale_left ! b, elems2 example_scale_right ! b])"
    and b: "\<exists>msg. Stereo_split_scale 2 (Some example_stacked_scale) = Inl (AssertionError msg)"
    using sh sh3 by blast+
  from a obtain S where S: "Stereo_stack_scales (Some example_scale_left) (Some example_scale_right)
        = Inr (Some S)" "shape3 S = (3, 2, 1)"
    and nth: "\<forall>b<3. elems3 S ! b = [elems2 example_scale_left ! b, elems2 example_scale_right ! b]"
    by blast
  from nth have "elems3 S ! 0 = [[1], [4]]" "elems3 S ! 1 = [[2], [5]]" "elems3 S ! 2 = [[3], [6]]"
    by (simp_all add: el)
  with S b show ?thesis by blast
qed

text \<open>The claim C4 as stated fails: for a batch of 3 the stacked scale has a first axis of
  size 3, not 2, and what \<^verbatim>\<open>decode\<close> takes as the two channels' scales are the entries of
  batch items 0 and 1, not the left and the right scale.\<close>

theorem stereo_scales_split_counterexample:
  "Stereo_stack_scales (Some example_scale_left) (Some example_scale_right)
     = Inr (Some example_stacked_scale)
   \<and> fst (shape3 example_stacked_scale) \<noteq> 2
   \<and> Stereo_split_scale 3 (Some example_stacked_scale)
       = Inr (Some \<lparr>shape2 = (2, 1), elems2 = [[1], [4]]\<rparr>, Some \<lparr>shape2 = (2, 1), elems2 = [[2], [5]]\<rparr>)
   \<and> Stereo_split_scale 3 (Some example_stacked_scale)
       \<noteq> Inr (Some example_scale_left, Some example_scale_right)"
  by (simp add: Stereo_stack_scales_def stack_dim1_def Stereo_split_scale_def select_axis0_def
      err_bind_def example_scale_left_def example_scale_right_def example_stacked_scale_def
      upt_rec)

end
